theory Spec2Isabelle
  imports Main
begin

section \<open>Shared helpers: JavaScript truthiness and number rendering\<close>

text \<open>
  \<open>x || d\<close> on an optional string: \<open>undefined\<close> and the empty string are falsy.
\<close>

definition or_default :: "string option \<Rightarrow> string \<Rightarrow> string" where
  "or_default x d = (case x of None \<Rightarrow> d | Some s \<Rightarrow> (if s = [] then d else s))"

definition digit_char :: "nat \<Rightarrow> char" where
  "digit_char n = ''0123456789'' ! (n mod 10)"

function string_of_nat :: "nat \<Rightarrow> string" where
  "string_of_nat n =
     (if n < 10 then [digit_char n] else string_of_nat (n div 10) @ [digit_char n])"
  by pat_completeness auto
termination
  by (relation "measure (\<lambda>n. n)") auto

declare string_of_nat.simps [simp del]

text \<open>
  \<open>String(n)\<close> for an integer \<open>n\<close> that a number holds exactly and that is below
  \<open>10^21\<close>, where the source still prints all digits.
\<close>

definition string_of_int :: "int \<Rightarrow> string" where
  "string_of_int i = (if i < 0 then ''-'' @ string_of_nat (nat (- i)) else string_of_nat (nat i))"

text \<open>
  \<open>(cents / 100).toFixed(2)\<close>, in the double precision arithmetic of the source. A
  double is kept as a pair \<open>(m, s)\<close> that stands for \<open>m * 2^s\<close>. \<open>to_double a b\<close> is the
  double nearest to the fraction \<open>a / b\<close> (both positive), ties to the even significand:
  with \<open>2^e \<le> a / b < 2^(e + 1)\<close> it rounds \<open>a / b\<close> to a multiple of \<open>2^(e - 52)\<close>.
\<close>

function bit_length :: "int \<Rightarrow> int" where
  "bit_length n = (if n \<le> 0 then 0 else 1 + bit_length (n div 2))"
  by pat_completeness auto
termination
  by (relation "measure nat") auto

declare bit_length.simps [simp del]

text \<open>\<open>2^d \<le> a / b\<close>, for an exponent of either sign.\<close>

definition at_least_pow2 :: "int \<Rightarrow> int \<Rightarrow> int \<Rightarrow> bool" where
  "at_least_pow2 a b d = (if 0 \<le> d then b * 2 ^ nat d \<le> a else b \<le> a * 2 ^ nat (- d))"

text \<open>
  The exponent \<open>e\<close> of \<open>a / b\<close>: with \<open>t\<close> the difference of the bit lengths,
  \<open>2^(t - 1) < a / b < 2^(t + 1)\<close>, so \<open>e\<close> is \<open>t\<close> or \<open>t - 1\<close>.
\<close>

definition exponent_near :: "int \<Rightarrow> int \<Rightarrow> int \<Rightarrow> int" where
  "exponent_near a b t = (if at_least_pow2 a b t then t else t - 1)"

definition exponent_of :: "int \<Rightarrow> int \<Rightarrow> int" where
  "exponent_of a b = exponent_near a b (bit_length a - bit_length b)"

text \<open>The integer nearest to \<open>a / b\<close>, the even one of two.\<close>

definition round_half_even :: "int \<Rightarrow> int \<Rightarrow> int" where
  "round_half_even a b =
     (if 2 * (a mod b) < b then a div b
      else if b < 2 * (a mod b) then a div b + 1
      else if even (a div b) then a div b else a div b + 1)"

text \<open>\<open>a / b\<close> rounded to a multiple of \<open>2^s\<close>.\<close>

definition round_to_unit :: "int \<Rightarrow> int \<Rightarrow> int \<Rightarrow> int \<times> int" where
  "round_to_unit a b s =
     (if 0 \<le> s then (round_half_even a (b * 2 ^ nat s), s)
      else (round_half_even (a * 2 ^ nat (- s)) b, s))"

definition to_double :: "int \<Rightarrow> int \<Rightarrow> int \<times> int" where
  "to_double a b = round_to_unit a b (exponent_of a b - 52)"

text \<open>A double as a fraction, numerator and denominator.\<close>

definition double_fraction :: "int \<times> int \<Rightarrow> int \<times> int" where
  "double_fraction x =
     (case x of (m, s) \<Rightarrow> (if 0 \<le> s then (m * 2 ^ nat s, 1) else (m, 2 ^ nat (- s))))"

text \<open>The double division of a double by 100.\<close>

definition divided_by_100 :: "int \<times> int \<Rightarrow> int \<times> int" where
  "divided_by_100 x = (case double_fraction x of (a, b) \<Rightarrow> to_double a (b * 100))"

text \<open>
  The integer \<open>n\<close> of \<open>toFixed(2)\<close>: the one for which \<open>n / 100\<close> is nearest to the
  double, the larger of two.
\<close>

definition hundredths :: "int \<times> int \<Rightarrow> int" where
  "hundredths x =
     (case x of (m, s) \<Rightarrow>
        (if 0 \<le> s then 100 * m * 2 ^ nat s
         else (200 * m + 2 ^ nat (- s)) div 2 ^ nat (1 - s)))"

function decimal_digits :: "int \<Rightarrow> string" where
  "decimal_digits i =
     (if i < 10 then [digit_char (nat i)] else decimal_digits (i div 10) @ [digit_char (nat (i mod 10))])"
  by pat_completeness auto
termination
  by (relation "measure nat") auto

declare decimal_digits.simps [simp del]

definition print_hundredths :: "bool \<Rightarrow> int \<Rightarrow> string" where
  "print_hundredths negative n =
     (if negative then ''-'' else '''') @ decimal_digits (n div 100) @ ''.''
       @ [digit_char (nat (n mod 100 div 10)), digit_char (nat (n mod 10))]"

text \<open>
  The amount reaches the code as a number, the double nearest to the integer of the
  JSON text; the division by 100 rounds again; \<open>toFixed(2)\<close> then prints the nearest
  number of hundredths with the point before its last two digits. From \<open>10^21\<close> on the
  source prints the exponent notation of \<open>toString\<close> instead, which is not followed
  here.
\<close>

definition toFixed2 :: "int \<Rightarrow> string" where
  "toFixed2 cents =
     (if cents = 0 then ''0.00''
      else print_hundredths (cents < 0) (hundredths (divided_by_100 (to_double \<bar>cents\<bar> 1))))"

section \<open>Product page: the product form (section-cart.js, second script)\<close>

subsection \<open>Platform data and the DOM the form controller holds\<close>

text \<open>
  A variant of the product JSON. \<open>option_values\<close> holds the properties \<open>option1\<close>,
  \<open>option2\<close>, ... in order; \<open>None\<close> is \<open>null\<close>, and a position beyond the list is
  a property the object does not have (\<open>undefined\<close>). Neither is \<open>===\<close> to a string.
\<close>

record variant =
  variant_id :: int
  option_values :: "string option list"
  price :: int
  compare_at_price :: "int option"
  available :: bool
  sku :: "string option"
  featured_media :: "int option"

record product =
  variants :: "variant list"
  options :: "string list"

record option_input =
  inp_value :: string
  inp_checked :: bool
  inp_disabled :: bool

text \<open>A \<open>.product__option-button\<close>; \<open>btn_input\<close> is what \<open>querySelector('input')\<close> finds.\<close>

record option_button =
  btn_input :: "option_input option"
  btn_unavailable :: bool

text \<open>
  A \<open>[data-option-index]\<close> group; \<open>value_span\<close> is the text of its
  \<open>[data-option-value]\<close>. The inputs of a group are the inputs of its buttons, in
  document order.
\<close>

record option_group =
  value_span :: "string option"
  buttons :: "option_button list"

record submit_button =
  sb_disabled :: bool
  sb_text :: string

record sku_element =
  sku_text :: string
  sku_hidden :: bool

record media_item =
  media_id :: string
  media_active :: bool
  media_hidden :: bool

record thumb_button =
  thumb_id :: string
  thumb_active :: bool
  thumb_aria_current :: string

record gallery =
  mediaItems :: "media_item list"
  thumbButtons :: "thumb_button list"

text \<open>A URL: everything before the query, the parsed query parameters, the fragment.\<close>

record url =
  url_base :: string
  searchParams :: "(string \<times> string) list"
  url_hash :: string

record window_translations =
  t_unavailable :: "string option"
  t_soldOut :: "string option"
  t_addToCart :: "string option"
  t_sale :: "string option"

record window =
  win_translations :: "window_translations option"
  shopify_currency_active :: "string option"
  shopCurrency :: "string option"

text \<open>
  The controller's fields; an element field is \<open>None\<close> when its selector found nothing.
  \<open>gallery_state = None\<close> is a gallery built on a missing container. \<open>location\<close> is
  \<open>window.location\<close>, \<open>replaceState_log\<close> the URLs handed to \<open>history.replaceState\<close>,
  oldest first.
\<close>

record product_form =
  pf_product :: "product option"
  variantIdInput :: "string option"
  priceContainer :: "string option"
  addToCartBtn :: "submit_button option"
  skuContainer :: "sku_element option"
  optionGroups :: "option_group list"
  gallery_state :: "gallery option"
  location :: url
  replaceState_log :: "url list"

datatype completion = Normal | TypeError

subsection \<open>The variant resolver\<close>

definition group_inputs :: "option_group \<Rightarrow> option_input list" where
  "group_inputs g = List.map_filter btn_input (buttons g)"

definition getSelectedOptions :: "product_form \<Rightarrow> string list" where
  "getSelectedOptions f =
     List.map_filter (\<lambda>g. map_option inp_value (find inp_checked (group_inputs g)))
       (optionGroups f)"

text \<open>
  What the user has recorded in a group: for each button, the value and the checked flag
  of its input.
\<close>

definition recorded :: "option_group \<Rightarrow> (string \<times> bool) option list" where
  "recorded g = map (\<lambda>b. map_option (\<lambda>i. (inp_value i, inp_checked i)) (btn_input b)) (buttons g)"

text \<open>
  The value a group has checked: that of its first checked input, which is what
  \<open>group.querySelector('input:checked')\<close> finds.
\<close>

definition checked_value :: "option_group \<Rightarrow> string option" where
  "checked_value g = map_option inp_value (find inp_checked (group_inputs g))"

text \<open>\<open>variant[`option${index + 1}`]\<close>\<close>

definition variant_option :: "variant \<Rightarrow> nat \<Rightarrow> string option" where
  "variant_option v index =
     (if index < length (option_values v) then option_values v ! index else None)"

definition matches_options :: "string list \<Rightarrow> variant \<Rightarrow> bool" where
  "matches_options opts v =
     list_all (\<lambda>(index, option). variant_option v index = Some option) (enumerate 0 opts)"

definition getVariantFromOptions :: "product_form \<Rightarrow> string list \<Rightarrow> variant option" where
  "getVariantFromOptions f opts =
     (case pf_product f of None \<Rightarrow> None
      | Some p \<Rightarrow> find (matches_options opts) (variants p))"

subsection \<open>What an option change writes\<close>

definition updateVariantId :: "variant option \<Rightarrow> product_form \<Rightarrow> product_form" where
  "updateVariantId var f =
     (case (var, variantIdInput f) of
        (Some v, Some _) \<Rightarrow> f\<lparr>variantIdInput := Some (string_of_int (variant_id v))\<rparr>
      | _ \<Rightarrow> f)"

text \<open>\<open>window.translations?.key || fallback\<close>\<close>

definition translation :: "window \<Rightarrow> (window_translations \<Rightarrow> string option) \<Rightarrow> string \<Rightarrow> string" where
  "translation w key fallback =
     or_default (case win_translations w of None \<Rightarrow> None | Some t \<Rightarrow> key t) fallback"

definition pf_formatMoney :: "window \<Rightarrow> int \<Rightarrow> string" where
  "pf_formatMoney w cents =
     toFixed2 cents @ '' '' @
       or_default (shopify_currency_active w) (or_default (shopCurrency w) ''RSD'')"

definition nl :: string where
  "nl = [CHR 0x0A]"

definition sale_price_html :: "window \<Rightarrow> variant \<Rightarrow> int \<Rightarrow> string" where
  \<open>sale_price_html w v c =
     nl @ ''          <span class="product__price-sale">'' @ pf_formatMoney w (price v) @ ''</span>''
     @ nl @ ''          <s class="product__price-compare">'' @ pf_formatMoney w c @ ''</s>''
     @ nl @ ''          <span class="product__price-badge">'' @ translation w t_sale ''Sale'' @ ''</span>''
     @ nl @ ''        ''\<close>

definition regular_price_html :: "window \<Rightarrow> variant \<Rightarrow> string" where
  \<open>regular_price_html w v =
     ''<span class="product__price-regular">'' @ pf_formatMoney w (price v) @ ''</span>''\<close>

definition updatePrice :: "window \<Rightarrow> variant option \<Rightarrow> product_form \<Rightarrow> product_form" where
  "updatePrice w var f =
     (case (priceContainer f, var) of
        (Some _, Some v) \<Rightarrow>
          f\<lparr>priceContainer := Some
            (case compare_at_price v of
               Some c \<Rightarrow> (if c \<noteq> 0 \<and> c > price v then sale_price_html w v c
                          else regular_price_html w v)
             | None \<Rightarrow> regular_price_html w v)\<rparr>
      | _ \<Rightarrow> f)"

definition updateAddToCartButton :: "window \<Rightarrow> variant option \<Rightarrow> product_form \<Rightarrow> product_form" where
  "updateAddToCartButton w var f =
     (case addToCartBtn f of None \<Rightarrow> f
      | Some b \<Rightarrow>
        (case var of
           None \<Rightarrow> f\<lparr>addToCartBtn := Some (b\<lparr>sb_disabled := True,
                      sb_text := translation w t_unavailable ''Unavailable''\<rparr>)\<rparr>
         | Some v \<Rightarrow>
             (if \<not> available v
              then f\<lparr>addToCartBtn := Some (b\<lparr>sb_disabled := True,
                      sb_text := translation w t_soldOut ''Sold Out''\<rparr>)\<rparr>
              else f\<lparr>addToCartBtn := Some (b\<lparr>sb_disabled := False,
                      sb_text := translation w t_addToCart ''Add to Cart''\<rparr>)\<rparr>)))"

text \<open>
  One group of \<open>updateOptionLabels\<close>: the label is written when the span exists and
  \<open>selectedOptions[index]\<close> is truthy (in range and not empty).
\<close>

definition label_group :: "string list \<Rightarrow> nat \<times> option_group \<Rightarrow> option_group" where
  "label_group sel ig =
     (case ig of (index, g) \<Rightarrow>
        (case value_span g of None \<Rightarrow> g
         | Some _ \<Rightarrow>
           (if index < length sel \<and> sel ! index \<noteq> []
            then g\<lparr>value_span := Some (sel ! index)\<rparr> else g)))"

definition updateOptionLabels :: "string list \<Rightarrow> product_form \<Rightarrow> product_form" where
  "updateOptionLabels sel f =
     f\<lparr>optionGroups := map (label_group sel) (enumerate 0 (optionGroups f))\<rparr>"

definition updateSku :: "variant option \<Rightarrow> product_form \<Rightarrow> product_form" where
  "updateSku var f =
     (case skuContainer f of None \<Rightarrow> f
      | Some e \<Rightarrow>
        (case Option.bind var sku of
           Some s \<Rightarrow>
             (if s \<noteq> []
              then f\<lparr>skuContainer := Some (e\<lparr>sku_text := ''SKU: '' @ s, sku_hidden := False\<rparr>)\<rparr>
              else f\<lparr>skuContainer := Some (e\<lparr>sku_hidden := True\<rparr>)\<rparr>)
         | None \<Rightarrow> f\<lparr>skuContainer := Some (e\<lparr>sku_hidden := True\<rparr>)\<rparr>))"

subsection \<open>URLSearchParams\<close>

fun set_first :: "string \<Rightarrow> string \<Rightarrow> (string \<times> string) list \<Rightarrow> (string \<times> string) list" where
  "set_first k v [] = []"
| "set_first k v (p # ps) =
     (if fst p = k then (k, v) # filter (\<lambda>q. fst q \<noteq> k) ps else p # set_first k v ps)"

text \<open>
  \<open>set\<close> overwrites the first pair of that name and drops the others, or appends;
  \<open>get\<close> reads the first pair of that name; \<open>append\<close> adds at the end.
\<close>

definition params_set :: "string \<Rightarrow> string \<Rightarrow> (string \<times> string) list \<Rightarrow> (string \<times> string) list" where
  "params_set k v ps = (if list_ex (\<lambda>p. fst p = k) ps then set_first k v ps else ps @ [(k, v)])"

definition params_get :: "string \<Rightarrow> (string \<times> string) list \<Rightarrow> string option" where
  "params_get k ps = map_option snd (find (\<lambda>p. fst p = k) ps)"

definition params_append :: "string \<Rightarrow> string \<Rightarrow> (string \<times> string) list \<Rightarrow> (string \<times> string) list" where
  "params_append k v ps = ps @ [(k, v)]"

definition updateUrl :: "variant option \<Rightarrow> product_form \<Rightarrow> product_form" where
  "updateUrl var f =
     (case var of None \<Rightarrow> f
      | Some v \<Rightarrow>
        (let u = (location f)\<lparr>searchParams :=
                   params_set ''variant'' (string_of_int (variant_id v))
                     (searchParams (location f))\<rparr>
         in f\<lparr>location := u, replaceState_log := replaceState_log f @ [u]\<rparr>))"

subsection \<open>Availability of the option buttons\<close>

text \<open>
  \<open>testOptions[groupIndex] = value\<close> on a copy of the selection: a JavaScript array
  grows when written past its end, with holes (\<open>None\<close>) in between.
\<close>

definition js_array_set :: "'a option list \<Rightarrow> nat \<Rightarrow> 'a \<Rightarrow> 'a option list" where
  "js_array_set xs i v =
     (if i < length xs then xs[i := Some v]
      else xs @ replicate (i - length xs) None @ [Some v])"

text \<open>
  The predicate handed to \<open>find\<close>: \<open>every\<close> does not visit holes; a position before
  the group is compared with \<open>selectedOptions[idx]\<close>, the group's own with the candidate,
  later ones are not compared.
\<close>

definition test_matches :: "string list \<Rightarrow> nat \<Rightarrow> string \<Rightarrow> variant \<Rightarrow> bool" where
  "test_matches sel groupIndex val v =
     list_all (\<lambda>(idx, slot).
        (case slot of None \<Rightarrow> True
         | Some opt \<Rightarrow>
           (if idx = groupIndex then variant_option v idx = Some opt
            else if idx < groupIndex
              then idx < length sel \<and> variant_option v idx = Some (sel ! idx)
            else True)))
       (enumerate 0 (js_array_set (map Some sel) groupIndex val))"

text \<open>
  The inner \<open>forEach\<close> over the buttons of one group. A button without an input makes
  \<open>input.value\<close> throw; the buttons before it stay updated.
\<close>

fun update_buttons ::
  "product \<Rightarrow> string list \<Rightarrow> nat \<Rightarrow> option_button list \<Rightarrow> completion \<times> option_button list" where
  "update_buttons p sel groupIndex [] = (Normal, [])"
| "update_buttons p sel groupIndex (b # bs) =
     (case btn_input b of
        None \<Rightarrow> (TypeError, b # bs)
      | Some i \<Rightarrow>
        (let matchingVariant = find (test_matches sel groupIndex (inp_value i)) (variants p);
             isAvailable = (case matchingVariant of None \<Rightarrow> False | Some v \<Rightarrow> available v);
             b' = b\<lparr>btn_unavailable := \<not> isAvailable,
                    btn_input := Some (i\<lparr>inp_disabled := (matchingVariant = None)\<rparr>)\<rparr>
         in (case update_buttons p sel groupIndex bs of (c, bs') \<Rightarrow> (c, b' # bs'))))"

fun update_groups ::
  "product \<Rightarrow> string list \<Rightarrow> nat \<Rightarrow> option_group list \<Rightarrow> completion \<times> option_group list" where
  "update_groups p sel groupIndex [] = (Normal, [])"
| "update_groups p sel groupIndex (g # gs) =
     (case update_buttons p sel groupIndex (buttons g) of
        (TypeError, bs') \<Rightarrow> (TypeError, g\<lparr>buttons := bs'\<rparr> # gs)
      | (Normal, bs') \<Rightarrow>
        (case update_groups p sel (Suc groupIndex) gs of
           (c, gs') \<Rightarrow> (c, g\<lparr>buttons := bs'\<rparr> # gs')))"

definition updateOptionAvailability ::
  "string list \<Rightarrow> product_form \<Rightarrow> completion \<times> product_form" where
  "updateOptionAvailability sel f =
     (case pf_product f of None \<Rightarrow> (Normal, f)
      | Some p \<Rightarrow>
        (if length (options p) < 2 then (Normal, f)
         else (case update_groups p sel 0 (optionGroups f) of
                 (c, gs) \<Rightarrow> (c, f\<lparr>optionGroups := gs\<rparr>))))"

subsection \<open>The gallery and the option-change handler\<close>

definition switchMedia :: "string \<Rightarrow> gallery \<Rightarrow> gallery" where
  "switchMedia mediaId g =
     g\<lparr>mediaItems :=
         map (\<lambda>m. m\<lparr>media_active := (media_id m = mediaId),
                     media_hidden := (media_id m \<noteq> mediaId)\<rparr>) (mediaItems g),
       thumbButtons :=
         map (\<lambda>t. t\<lparr>thumb_active := (thumb_id t = mediaId),
                     thumb_aria_current := (if thumb_id t = mediaId then ''true'' else ''false'')\<rparr>)
           (thumbButtons g)\<rparr>"

text \<open>
  \<open>updateMedia\<close>; on a gallery whose container was missing, \<open>this.mediaItems\<close> is
  undefined and \<open>switchMedia\<close> throws.
\<close>

definition updateMedia ::
  "int \<Rightarrow> product option \<Rightarrow> gallery option \<Rightarrow> completion \<times> gallery option" where
  "updateMedia variantId pr gal =
     (case pr of None \<Rightarrow> (Normal, gal)
      | Some p \<Rightarrow>
        (case Option.bind (find (\<lambda>v. variant_id v = variantId) (variants p)) featured_media of
           None \<Rightarrow> (Normal, gal)
         | Some m \<Rightarrow>
           (case gal of None \<Rightarrow> (TypeError, None)
            | Some g \<Rightarrow> (Normal, Some (switchMedia (string_of_int m) g)))))"

definition onOptionChange :: "window \<Rightarrow> product_form \<Rightarrow> completion \<times> product_form" where
  "onOptionChange w f =
     (let selectedOptions = getSelectedOptions f;
          var = getVariantFromOptions f selectedOptions;
          f1 = updateVariantId var f;
          f2 = updatePrice w var f1;
          f3 = updateAddToCartButton w var f2;
          f4 = updateOptionLabels selectedOptions f3;
          f5 = updateSku var f4;
          f6 = updateUrl var f5
      in (case updateOptionAvailability selectedOptions f6 of
            (TypeError, f7) \<Rightarrow> (TypeError, f7)
          | (Normal, f7) \<Rightarrow>
            (case var of None \<Rightarrow> (Normal, f7)
             | Some v \<Rightarrow>
               (case updateMedia (variant_id v) (pf_product f7) (gallery_state f7) of
                  (c, g) \<Rightarrow> (c, f7\<lparr>gallery_state := g\<rparr>)))))"

section \<open>Cart drawer (section-cart.js, first script)\<close>

subsection \<open>Network and DOM of the drawer\<close>

text \<open>The cart snapshot of \<open>/cart.js\<close>, as far as the drawer reads it.\<close>

record cart =
  item_count :: int
  total_price :: int

text \<open>
  The three requests the drawer sends: the POST to \<open>/cart/change.js\<close> with body
  \<open>{id, quantity}\<close> (a missing \<open>data-line-key\<close> attribute gives \<open>null\<close>), the GET of
  \<open>/?section_id=cart-drawer-content\<close>, and the GET of \<open>/cart.js\<close>.
\<close>

datatype request = CartChange "string option" int | GetSection | GetCart

text \<open>
  What a \<open>fetch\<close> gives: a rejection, or a response with its \<open>ok\<close> flag, what
  \<open>text()\<close> resolves to and what \<open>json()\<close> resolves to (\<open>None\<close>: that read rejects).
\<close>

datatype fetch_result = NetworkError | Response bool "string option" "cart option"

record header_count =
  hc_text :: string
  hc_hidden :: bool

text \<open>
  \<open>loading\<close> is the class \<open>cart-drawer--loading\<close>; \<open>countEl\<close> and \<open>subtotalEl\<close> are
  the texts of \<open>[data-cart-count-drawer]\<close> and \<open>[data-cart-drawer-subtotal]\<close>;
  \<open>header_counts\<close> the \<open>[data-cart-count]\<close> elements of the document; \<open>reloads\<close> counts
  \<open>location.reload()\<close>; \<open>console\<close> holds the \<open>console.error\<close> messages and \<open>sent\<close>
  the requests issued, oldest first.
\<close>

record cart_drawer =
  loading :: bool
  countEl :: "string option"
  subtotalEl :: "string option"
  header_counts :: "header_count list"
  reloads :: nat
  console :: "string list"
  sent :: "request list"

text \<open>The network is a parameter: \<open>net k\<close> is the outcome of the \<open>k\<close>-th request issued.\<close>

type_synonym network = "nat \<Rightarrow> fetch_result"

definition fetch :: "network \<Rightarrow> request \<Rightarrow> cart_drawer \<Rightarrow> fetch_result \<times> cart_drawer" where
  "fetch net rq d = (net (length (sent d)), d\<lparr>sent := sent d @ [rq]\<rparr>)"

text \<open>How a block of statements ends: it returns, or it throws in the state reached.\<close>

datatype 'a outcome = Returned 'a | Thrown 'a

subsection \<open>Refreshing the drawer\<close>

definition setLoading :: "bool \<Rightarrow> cart_drawer \<Rightarrow> cart_drawer" where
  "setLoading b d = d\<lparr>loading := b\<rparr>"

definition cd_formatMoney :: "int \<Rightarrow> string" where
  "cd_formatMoney cents = toFixed2 cents @ '' RSD''"

definition updateDrawerContent :: "cart \<Rightarrow> cart_drawer \<Rightarrow> cart_drawer" where
  "updateDrawerContent c d =
     (let d1 = (case countEl d of None \<Rightarrow> d
                | Some _ \<Rightarrow> d\<lparr>countEl := Some (''('' @ string_of_int (item_count c) @ '')'')\<rparr>);
          d2 = (case subtotalEl d1 of None \<Rightarrow> d1
                | Some _ \<Rightarrow> d1\<lparr>subtotalEl := Some (cd_formatMoney (total_price c))\<rparr>)
      in (if item_count c = 0 then d2\<lparr>reloads := Suc (reloads d2)\<rparr> else d2))"

text \<open>The \<open>try\<close> block of \<open>refresh\<close>.\<close>

definition refresh_try :: "network \<Rightarrow> cart_drawer \<Rightarrow> cart_drawer outcome" where
  "refresh_try net d =
     (case fetch net GetSection d of
        (NetworkError, d1) \<Rightarrow> Thrown d1
      | (Response ok1 None js1, d1) \<Rightarrow> Thrown d1
      | (Response ok1 (Some html) js1, d1) \<Rightarrow>
          (case fetch net GetCart d1 of
             (NetworkError, d2) \<Rightarrow> Thrown d2
           | (Response ok2 tx2 None, d2) \<Rightarrow> Thrown d2
           | (Response ok2 tx2 (Some c), d2) \<Rightarrow> Returned (updateDrawerContent c d2)))"

definition refresh :: "network \<Rightarrow> cart_drawer \<Rightarrow> cart_drawer" where
  "refresh net d =
     (case refresh_try net d of
        Returned d' \<Rightarrow> d'
      | Thrown d' \<Rightarrow> d'\<lparr>console := console d' @ [''Error refreshing cart:'']\<rparr>)"

text \<open>
  \<open>updateHeaderCount\<close>: one \<open>/cart.js\<close> request per header element, not awaited and
  with no rejection handler; a request that fails leaves its element as it is.
\<close>

fun header_fetches ::
  "network \<Rightarrow> header_count list \<Rightarrow> cart_drawer \<Rightarrow> header_count list \<times> cart_drawer" where
  "header_fetches net [] d = ([], d)"
| "header_fetches net (el # els) d =
     (case fetch net GetCart d of
        (r, d1) \<Rightarrow>
          (let el' = (case r of
                        Response ok tx (Some c) \<Rightarrow>
                          el\<lparr>hc_text := string_of_int (item_count c),
                             hc_hidden := (item_count c = 0)\<rparr>
                      | _ \<Rightarrow> el)
           in (case header_fetches net els d1 of (els', d2) \<Rightarrow> (el' # els', d2))))"

definition updateHeaderCount :: "network \<Rightarrow> cart_drawer \<Rightarrow> cart_drawer" where
  "updateHeaderCount net d =
     (case header_fetches net (header_counts d) d of
        (els, d') \<Rightarrow> d'\<lparr>header_counts := els\<rparr>)"

subsection \<open>Mutations\<close>

text \<open>The \<open>try\<close> block of \<open>updateItem\<close>.\<close>

definition updateItem_try ::
  "network \<Rightarrow> string option \<Rightarrow> int \<Rightarrow> cart_drawer \<Rightarrow> cart_drawer outcome" where
  "updateItem_try net lineKey quantity d =
     (case fetch net (CartChange lineKey quantity) d of
        (NetworkError, d1) \<Rightarrow> Thrown d1
      | (Response ok tx js, d1) \<Rightarrow>
          (if ok then Returned (updateHeaderCount net (refresh net d1)) else Returned d1))"

text \<open>
  \<open>updateItem\<close>: the \<open>catch\<close> clause logs, the \<open>finally\<close> clause clears the loading
  class; the result says whether the call itself returns or throws.
\<close>

definition updateItem ::
  "network \<Rightarrow> string option \<Rightarrow> int \<Rightarrow> cart_drawer \<Rightarrow> cart_drawer outcome" where
  "updateItem net lineKey quantity d =
     (let d1 = (case updateItem_try net lineKey quantity (setLoading True d) of
                  Returned d' \<Rightarrow> d'
                | Thrown d' \<Rightarrow> d'\<lparr>console := console d' @ [''Error updating cart:'']\<rparr>)
      in Returned (setLoading False d1))"

definition removeItem :: "network \<Rightarrow> string option \<Rightarrow> cart_drawer \<Rightarrow> cart_drawer outcome" where
  "removeItem net lineKey d = updateItem net lineKey 0 d"

subsection \<open>parseInt and the click handlers\<close>

text \<open>
  In this section, as in the search modal below, a character stands for one code unit
  of the source string; the strings of the model are those whose code units are below
  256. Of the white space and line terminators that \<open>parseInt\<close> and \<open>trim\<close> strip,
  these are the ones in that range: tab, line feed, vertical tab, form feed, carriage
  return, space and the no-break space.
\<close>

definition is_space :: "char \<Rightarrow> bool" where
  "is_space c =
     (c \<in> set [CHR 0x09, CHR 0x0A, CHR 0x0B, CHR 0x0C, CHR 0x0D, CHR 0x20, CHR 0xA0])"

definition digit_of :: "char \<Rightarrow> nat option" where
  "digit_of c =
     (let n = (of_char c :: nat)
      in if 48 \<le> n \<and> n \<le> 57 then Some (n - 48)
         else if 97 \<le> n \<and> n \<le> 102 then Some (n - 87)
         else if 65 \<le> n \<and> n \<le> 70 then Some (n - 55)
         else None)"

definition radix_digit :: "nat \<Rightarrow> char \<Rightarrow> bool" where
  "radix_digit radix c = (case digit_of c of None \<Rightarrow> False | Some k \<Rightarrow> k < radix)"

definition digits_value :: "nat \<Rightarrow> string \<Rightarrow> nat" where
  "digits_value radix ds = foldl (\<lambda>acc c. acc * radix + the (digit_of c)) 0 ds"

text \<open>
  \<open>parseInt(s)\<close> with no radix argument: leading white space, a sign, a \<open>0x\<close> prefix for
  hexadecimal, then the longest run of digits; \<open>None\<close> is \<open>NaN\<close>. The argument \<open>None\<close>
  is \<open>undefined\<close>, which parses to \<open>NaN\<close>.
\<close>

definition parse_digits :: "nat \<Rightarrow> string \<Rightarrow> nat option" where
  "parse_digits radix s =
     (let ds = takeWhile (radix_digit radix) s
      in if ds = [] then None else Some (digits_value radix ds))"

definition parse_unsigned :: "string \<Rightarrow> nat option" where
  "parse_unsigned s =
     (if 2 \<le> length s \<and> s ! 0 = CHR ''0'' \<and> (s ! 1 = CHR ''x'' \<or> s ! 1 = CHR ''X'')
      then parse_digits 16 (drop 2 s) else parse_digits 10 s)"

definition parseInt :: "string option \<Rightarrow> int option" where
  "parseInt text =
     (case text of None \<Rightarrow> None
      | Some s0 \<Rightarrow>
        (let s = dropWhile is_space s0
         in if s \<noteq> [] \<and> hd s = CHR ''-'' then map_option (\<lambda>n. - int n) (parse_unsigned (tl s))
            else if s \<noteq> [] \<and> hd s = CHR ''+'' then map_option int (parse_unsigned (tl s))
            else map_option int (parse_unsigned s)))"

text \<open>\<open>parseInt(valueEl?.textContent) || 1\<close>: \<open>NaN\<close> and \<open>0\<close> are falsy.\<close>

definition currentQty :: "string option \<Rightarrow> int" where
  "currentQty text = (case parseInt text of None \<Rightarrow> 1 | Some n \<Rightarrow> (if n = 0 then 1 else n))"

text \<open>
  The three click listeners of \<open>setupDrawerControls\<close>, for a click that lands on the
  button in question: \<open>lineKey\<close> is its \<open>data-line-key\<close> attribute and \<open>text\<close> the text of
  the item's \<open>[data-drawer-quantity-value]\<close> (\<open>None\<close> when there is no such element).
\<close>

definition minus_click ::
  "network \<Rightarrow> string option \<Rightarrow> string option \<Rightarrow> cart_drawer \<Rightarrow> cart_drawer outcome" where
  "minus_click net lineKey text d =
     (if currentQty text > 1 then updateItem net lineKey (currentQty text - 1) d
      else removeItem net lineKey d)"

definition plus_click ::
  "network \<Rightarrow> string option \<Rightarrow> string option \<Rightarrow> cart_drawer \<Rightarrow> cart_drawer outcome" where
  "plus_click net lineKey text d = updateItem net lineKey (currentQty text + 1) d"

definition remove_click :: "network \<Rightarrow> string option \<Rightarrow> cart_drawer \<Rightarrow> cart_drawer outcome" where
  "remove_click net lineKey d = removeItem net lineKey d"

section \<open>Collection page: filter forms\<close>

text \<open>
  In this section a string is the UTF-8 byte sequence of the source string, which is
  what \<open>URLSearchParams.toString\<close> percent-encodes.
\<close>

definition hex_char :: "nat \<Rightarrow> char" where
  "hex_char n = ''0123456789ABCDEF'' ! (n mod 16)"

definition urlencoded_byte :: "char \<Rightarrow> string" where
  "urlencoded_byte c =
     (let n = (of_char c :: nat)
      in if (48 \<le> n \<and> n \<le> 57) \<or> (65 \<le> n \<and> n \<le> 90) \<or> (97 \<le> n \<and> n \<le> 122)
            \<or> c \<in> set ''*-._''
         then [c]
         else if c = CHR '' '' then ''+''
         else [CHR ''%'', hex_char (n div 16), hex_char n])"

definition urlencoded :: "string \<Rightarrow> string" where
  "urlencoded s = concat (map urlencoded_byte s)"

fun join_amp :: "string list \<Rightarrow> string" where
  "join_amp [] = []"
| "join_amp [x] = x"
| "join_amp (x # y # ys) = x @ ''&'' @ join_amp (y # ys)"

definition params_toString :: "(string \<times> string) list \<Rightarrow> string" where
  "params_toString ps = join_amp (map (\<lambda>(k, v). urlencoded k @ ''='' @ urlencoded v) ps)"

text \<open>
  \<open>window.location\<close> of the collection page: its path and its parsed query.
\<close>

record page_location =
  pathname :: string
  loc_searchParams :: "(string \<times> string) list"

text \<open>
  The loop over \<open>formData.entries()\<close>: a field is appended when its value is truthy.
  The filter forms hold check boxes and price inputs, so every value is a string.
\<close>

definition form_params :: "(string \<times> string) list \<Rightarrow> (string \<times> string) list" where
  "form_params entries =
     foldl (\<lambda>params (key, val). if val \<noteq> [] then params_append key val params else params)
       [] entries"

text \<open>
  What the two submit paths build before they navigate: the parameters, and from them
  the string assigned to \<open>window.location.href\<close>.
\<close>

definition FiltersDrawer_params ::
  "(string \<times> string) list \<Rightarrow> page_location \<Rightarrow> (string \<times> string) list" where
  "FiltersDrawer_params entries loc =
     (let params = form_params entries;
          sortBy = params_get ''sort_by'' (loc_searchParams loc)
      in (case sortBy of None \<Rightarrow> params
          | Some sb \<Rightarrow> (if sb \<noteq> [] then params_set ''sort_by'' sb params else params)))"

definition FiltersDrawer_handleSubmit :: "(string \<times> string) list \<Rightarrow> page_location \<Rightarrow> string" where
  "FiltersDrawer_handleSubmit entries loc =
     pathname loc @ ''?'' @ params_toString (FiltersDrawer_params entries loc)"

definition SidebarFilters_params ::
  "(string \<times> string) list \<Rightarrow> page_location \<Rightarrow> (string \<times> string) list" where
  "SidebarFilters_params entries loc =
     (let params = form_params entries;
          sortBy = params_get ''sort_by'' (loc_searchParams loc)
      in (case sortBy of None \<Rightarrow> params
          | Some sb \<Rightarrow> (if sb \<noteq> [] then params_set ''sort_by'' sb params else params)))"

definition SidebarFilters_submitForm :: "(string \<times> string) list \<Rightarrow> page_location \<Rightarrow> string" where
  "SidebarFilters_submitForm entries loc =
     pathname loc @ ''?'' @ params_toString (SidebarFilters_params entries loc)"

section \<open>Predictive search (the search modal)\<close>

text \<open>
  In this section a character stands for one code unit of the source string, so that
  \<open>length\<close> is the source's \<open>.length\<close>. The modal is one that has its input and its
  results panel, the two elements the handlers use without a check.
\<close>

subsection \<open>State of the modal\<close>

datatype phase = AwaitingResponse | AwaitingBody

text \<open>
  A call of \<open>fetchResults\<close> suspended at one of its two \<open>await\<close>s: the number of the
  \<open>AbortController\<close> it created, its query, and where it waits.
\<close>

record search_request =
  rid :: nat
  sr_query :: string
  sr_phase :: phase

text \<open>
  \<open>debounceTimer\<close> is the pending timeout with the query its closure holds;
  \<open>abortController\<close> is the number of the controller in \<open>this.abortController\<close>;
  \<open>results\<close> is the \<open>innerHTML\<close> of the results panel and \<open>is_loading\<close> its class;
  \<open>issued\<close> lists the requests sent (controller number and query), oldest first.
\<close>

record search_modal =
  input_value :: string
  debounceTimer :: "string option"
  abortController :: "nat option"
  inflight :: "search_request list"
  next_controller :: nat
  results :: string
  is_loading :: bool
  search_console :: "string list"
  issued :: "(nat \<times> string) list"

record search_translations =
  searchPlaceholder :: "string option"
  searchNoResults :: "string option"

definition minChars :: nat where
  "minChars = 3"

definition trim :: "string \<Rightarrow> string" where
  "trim s = rev (dropWhile is_space (rev (dropWhile is_space s)))"

definition search_translation ::
  "search_translations option \<Rightarrow> (search_translations \<Rightarrow> string option) \<Rightarrow> string \<Rightarrow> string" where
  "search_translation tr key fallback =
     or_default (case tr of None \<Rightarrow> None | Some t \<Rightarrow> key t) fallback"

definition placeholder_html :: "search_translations option \<Rightarrow> string" where
  \<open>placeholder_html tr =
     nl @ ''      <div class="search-modal__placeholder">''
     @ nl @ ''        <p class="search-modal__hint">''
       @ search_translation tr searchPlaceholder ''What are you looking for?'' @ ''</p>''
     @ nl @ ''      </div>''
     @ nl @ ''    ''\<close>

definition no_results_html :: "search_translations option \<Rightarrow> string \<Rightarrow> string" where
  \<open>no_results_html tr query =
     nl @ ''      <div class="predictive-search__no-results">''
     @ nl @ ''        <p>'' @ search_translation tr searchNoResults ''No results for''
       @ '' "'' @ query @ ''"</p>''
     @ nl @ ''      </div>''
     @ nl @ ''    ''\<close>

definition clearResults :: "search_translations option \<Rightarrow> search_modal \<Rightarrow> search_modal" where
  "clearResults tr s = s\<lparr>results := placeholder_html tr\<rparr>"

definition showNoResults :: "search_translations option \<Rightarrow> string \<Rightarrow> search_modal \<Rightarrow> search_modal" where
  "showNoResults tr query s = s\<lparr>results := no_results_html tr query\<rparr>"

subsection \<open>fetchResults, piece by piece\<close>

text \<open>
  What can reach the \<open>catch\<close> clause: the rejection of an aborted request, a network
  failure of \<open>fetch\<close>, the \<open>Error('Search failed')\<close> thrown on a response that is not ok,
  and a failure while reading the body.
\<close>

datatype search_error = AbortError | FetchFailed | SearchFailed | BodyFailed

definition error_name :: "search_error \<Rightarrow> string" where
  "error_name e = (case e of AbortError \<Rightarrow> ''AbortError'' | FetchFailed \<Rightarrow> ''TypeError''
                   | SearchFailed \<Rightarrow> ''Error'' | BodyFailed \<Rightarrow> ''TypeError'')"

definition fetchResults_catch ::
  "search_translations option \<Rightarrow> search_error \<Rightarrow> string \<Rightarrow> search_modal \<Rightarrow> search_modal" where
  "fetchResults_catch tr err query s =
     (if error_name err \<noteq> ''AbortError''
      then showNoResults tr query (s\<lparr>search_console := search_console s @ [''Search error:'']\<rparr>)
      else s)"

definition fetchResults_finally :: "search_modal \<Rightarrow> search_modal" where
  "fetchResults_finally s = s\<lparr>is_loading := False\<rparr>"

text \<open>The call up to its first \<open>await\<close>: a new controller, and the request goes out.\<close>

definition fetchResults_start :: "string \<Rightarrow> search_modal \<Rightarrow> search_modal" where
  "fetchResults_start query s =
     (let c = next_controller s
      in s\<lparr>is_loading := True,
           abortController := Some c,
           next_controller := Suc c,
           inflight := inflight s @ [\<lparr>rid = c, sr_query = query, sr_phase = AwaitingResponse\<rparr>],
           issued := issued s @ [(c, query)]\<rparr>)"

definition finish_request :: "nat \<Rightarrow> search_modal \<Rightarrow> search_modal" where
  "finish_request c s = s\<lparr>inflight := filter (\<lambda>r. rid r \<noteq> c) (inflight s)\<rparr>"

text \<open>A suspended call whose awaited promise rejects: \<open>catch\<close>, then \<open>finally\<close>.\<close>

definition reject_request ::
  "search_translations option \<Rightarrow> search_error \<Rightarrow> search_request \<Rightarrow> search_modal \<Rightarrow> search_modal" where
  "reject_request tr err r s =
     fetchResults_finally (fetchResults_catch tr err (sr_query r) (finish_request (rid r) s))"

text \<open>
  What the network hands to a suspended call: the rejection of \<open>fetch\<close>, the response
  with its \<open>ok\<close> flag, a failure of \<open>text()\<close>, or the text, given as the \<open>outerHTML\<close> of
  the \<open>[data-predictive-search]\<close> element found in it (\<open>None\<close>: no such element).
\<close>

datatype delivery = FetchRejects | ResponseArrives bool | BodyRejects | BodyArrives "string option"

definition deliver ::
  "search_translations option \<Rightarrow> nat \<Rightarrow> delivery \<Rightarrow> search_modal \<Rightarrow> search_modal" where
  "deliver tr c dl s =
     (case find (\<lambda>r. rid r = c) (inflight s) of
        None \<Rightarrow> s
      | Some r \<Rightarrow>
        (case (sr_phase r, dl) of
           (AwaitingResponse, FetchRejects) \<Rightarrow> reject_request tr FetchFailed r s
         | (AwaitingResponse, ResponseArrives ok) \<Rightarrow>
             (if \<not> ok then reject_request tr SearchFailed r s
              else s\<lparr>inflight :=
                      map (\<lambda>x. if rid x = c then x\<lparr>sr_phase := AwaitingBody\<rparr> else x) (inflight s)\<rparr>)
         | (AwaitingBody, BodyRejects) \<Rightarrow> reject_request tr BodyFailed r s
         | (AwaitingBody, BodyArrives (Some html)) \<Rightarrow>
             fetchResults_finally ((finish_request c s)\<lparr>results := html\<rparr>)
         | (AwaitingBody, BodyArrives None) \<Rightarrow>
             fetchResults_finally (showNoResults tr (sr_query r) (finish_request c s))
         | _ \<Rightarrow> s))"

subsection \<open>The input handler and the events of the modal\<close>

text \<open>
  \<open>onInput\<close>. \<open>abort()\<close> on the current controller rejects the await of the call that
  created it, if that call is still suspended; its \<open>catch\<close> and \<open>finally\<close> clauses run
  right after the handler's own statements.
\<close>

definition onInput :: "search_translations option \<Rightarrow> search_modal \<Rightarrow> search_modal" where
  "onInput tr s =
     (let query = trim (input_value s);
          aborted = (case abortController s of None \<Rightarrow> None
                     | Some c \<Rightarrow> find (\<lambda>r. rid r = c) (inflight s));
          s1 = s\<lparr>debounceTimer := None\<rparr>;
          s2 = (if length query < minChars then clearResults tr s1
                else s1\<lparr>debounceTimer := Some query\<rparr>)
      in (case aborted of None \<Rightarrow> s2 | Some r \<Rightarrow> reject_request tr AbortError r s2))"

text \<open>
  What can happen to the modal: the user changes the input to a new value, the pending
  debounce timer fires, the network delivers to a suspended call, the modal is closed
  (of \<open>close\<close>, only \<open>clearResults\<close> touches the state kept here).
\<close>

datatype search_event =
    Input string
  | TimerFires
  | Deliver nat delivery
  | Close

definition search_step :: "search_translations option \<Rightarrow> search_modal \<Rightarrow> search_event \<Rightarrow> search_modal" where
  "search_step tr s ev =
     (case ev of
        Input v \<Rightarrow> onInput tr (s\<lparr>input_value := v\<rparr>)
      | TimerFires \<Rightarrow>
          (case debounceTimer s of None \<Rightarrow> s
           | Some query \<Rightarrow> fetchResults_start query (s\<lparr>debounceTimer := None\<rparr>))
      | Deliver c dl \<Rightarrow> deliver tr c dl s
      | Close \<Rightarrow> clearResults tr s)"

text \<open>The modal as its constructor leaves it, with the panel's server-rendered markup.\<close>

definition search_init :: "string \<Rightarrow> search_modal" where
  "search_init markup =
     \<lparr>input_value = [], debounceTimer = None, abortController = None, inflight = [],
      next_controller = 0, results = markup, is_loading = False, search_console = [],
      issued = []\<rparr>"

definition search_run ::
  "search_translations option \<Rightarrow> search_event list \<Rightarrow> search_modal \<Rightarrow> search_modal" where
  "search_run tr evs s = foldl (search_step tr) s evs"

text \<open>
  The invariant of the modal: at most one suspended call, which belongs to the current
  controller and to the request issued last, and none while a timer is pending.
\<close>

definition search_inv :: "search_modal \<Rightarrow> bool" where
  "search_inv s \<longleftrightarrow>
     length (inflight s) \<le> 1
     \<and> (\<forall>r \<in> set (inflight s).
          abortController s = Some (rid r) \<and> issued s \<noteq> [] \<and> last (issued s) = (rid r, sr_query r))
     \<and> (debounceTimer s \<noteq> None \<longrightarrow> inflight s = [])"

section \<open>Concrete inputs used to exercise the theorems\<close>

definition ex_red_s :: variant where
  "ex_red_s = \<lparr>variant_id = 101, option_values = [Some ''Red'', Some ''S''], price = 1000,
     compare_at_price = None, available = True, sku = Some ''R-S'', featured_media = None\<rparr>"

definition ex_red_m :: variant where
  "ex_red_m = \<lparr>variant_id = 102, option_values = [Some ''Red'', Some ''M''], price = 1200,
     compare_at_price = Some 1500, available = False, sku = None, featured_media = None\<rparr>"

definition ex_blue_s :: variant where
  "ex_blue_s = \<lparr>variant_id = 103, option_values = [Some ''Blue'', Some ''S''], price = 1000,
     compare_at_price = None, available = True, sku = Some ''B-S'', featured_media = None\<rparr>"

definition ex_product :: product where
  "ex_product = \<lparr>variants = [ex_red_s, ex_red_m, ex_blue_s], options = [''Color'', ''Size'']\<rparr>"

definition ex_button :: "string \<Rightarrow> string \<Rightarrow> option_button" where
  "ex_button chosen v =
     \<lparr>btn_input = Some \<lparr>inp_value = v, inp_checked = (v = chosen), inp_disabled = False\<rparr>,
      btn_unavailable = False\<rparr>"

text \<open>
  A two-option product page with the colour and the size given checked; the labels,
  the variant field, the price and the URL still show the variant Red / S.
\<close>

definition ex_form :: "string \<Rightarrow> string \<Rightarrow> product_form" where
  \<open>ex_form colour sz =
     \<lparr>pf_product = Some ex_product,
      variantIdInput = Some ''101'',
      priceContainer = Some ''<span class="product__price-regular">10.00 RSD</span>'',
      addToCartBtn = Some \<lparr>sb_disabled = False, sb_text = ''Add to Cart''\<rparr>,
      skuContainer = Some \<lparr>sku_text = ''SKU: R-S'', sku_hidden = False\<rparr>,
      optionGroups =
        [\<lparr>value_span = Some ''Red'', buttons = map (ex_button colour) [''Red'', ''Blue'']\<rparr>,
         \<lparr>value_span = Some ''S'', buttons = map (ex_button sz) [''S'', ''M'']\<rparr>],
      gallery_state = Some \<lparr>mediaItems = [], thumbButtons = []\<rparr>,
      location = \<lparr>url_base = ''/products/shirt'', searchParams = [(''variant'', ''101'')],
                  url_hash = []\<rparr>,
      replaceState_log = []\<rparr>\<close>

definition ex_window :: window where
  "ex_window = \<lparr>win_translations = None, shopify_currency_active = None, shopCurrency = None\<rparr>"

text \<open>A network that answers the requests in order from a list and is down afterwards.\<close>

definition net_of :: "fetch_result list \<Rightarrow> network" where
  "net_of rs k = (if k < length rs then rs ! k else NetworkError)"

definition ex_drawer :: cart_drawer where
  "ex_drawer = \<lparr>loading = False, countEl = Some ''(3)'', subtotalEl = Some ''36.00 RSD'',
     header_counts = [\<lparr>hc_text = ''3'', hc_hidden = False\<rparr>], reloads = 0, console = [],
     sent = []\<rparr>"

definition ex_snapshot :: cart where
  "ex_snapshot = \<lparr>item_count = 2, total_price = 2400\<rparr>"

text \<open>Every request succeeds and \<open>/cart.js\<close> delivers the snapshot.\<close>

definition ex_net_ok :: network where
  "ex_net_ok = net_of [Response True (Some ''{}'') None, Response True (Some ''<div></div>'') None,
     Response True (Some ''{}'') (Some ex_snapshot), Response True (Some ''{}'') (Some ex_snapshot)]"

text \<open>
  The change succeeds, the section request fails, and the request of the header count
  delivers the snapshot.
\<close>

definition ex_net_section_fails :: network where
  "ex_net_section_fails = net_of [Response True (Some ''{}'') None, NetworkError,
     Response True (Some ''{}'') (Some ex_snapshot)]"

text \<open>The change is answered with an error status.\<close>

definition ex_net_status :: network where
  "ex_net_status = net_of [Response False (Some ''{}'') None]"

definition ex_entries :: "(string \<times> string) list" where
  "ex_entries = [(''filter.v.availability'', ''1''), (''filter.v.price.gte'', []),
     (''filter.p.tag'', ''new in'')]"

definition ex_loc :: "(string \<times> string) list \<Rightarrow> page_location" where
  "ex_loc q = \<lparr>pathname = ''/collections/all'', loc_searchParams = q\<rparr>"

text \<open>
  Typing \<open>shi\<close>, the debounce timer firing, one more letter, the timer firing again.
\<close>

definition ex_typing :: "search_event list" where
  "ex_typing = [Input ''shi'', TimerFires, Input ''shir'', TimerFires]"


section \<open>The helpers on sample values\<close>

text \<open>
  Amounts as the source prints them: the last one is an amount where the double
  division makes the last digit differ from the exact quotient.
\<close>

lemma toFixed2_examples:
  "toFixed2 2400 = ''24.00''"
  "toFixed2 (- 5) = ''-0.05''"
  "toFixed2 123456 = ''1234.56''"
  "toFixed2 7205759403792793 = ''72057594037927.94''"
  by code_simp+

text \<open>The no-break space is white space for \<open>trim\<close> and \<open>parseInt\<close>.\<close>

lemma white_space_examples:
  "trim ([CHR 0xA0] @ ''ab '') = ''ab''"
  "parseInt (Some ([CHR 0xA0] @ '' 5'')) = Some 5"
  "parseInt (Some ''0x1f'') = Some 31"
  "parseInt (Some ''abc'') = None"
  by code_simp+

section \<open>Properties of the variant resolver and the option-change handler\<close>

lemma matches_options_iff:
  "matches_options opts v \<longleftrightarrow> (\<forall>i < length opts. variant_option v i = Some (opts ! i))"
  by (auto simp: matches_options_def list_all_iff in_set_enumerate_eq)

lemma find_unique:
  assumes "x \<in> set xs" and "P x" and "\<forall>y \<in> set xs. P y \<longrightarrow> y = x"
  shows "find P xs = Some x"
proof (cases "find P xs")
  case None
  have "\<not> (\<exists>y. y \<in> set xs \<and> P y)"
    using None find_None_iff [of P xs] by blast
  with assms(1,2) show ?thesis by blast
next
  case (Some y)
  then obtain i where "i < length xs" "P (xs ! i)" "y = xs ! i"
    unfolding find_Some_iff by blast
  then have "y \<in> set xs" "P y" by simp_all
  with assms(3) have "y = x" by blast
  with Some show ?thesis by simp
qed

text \<open>
  C1. On a page that has its product JSON, \<open>getVariantFromOptions\<close> returns the first
  variant, in the product's order, whose option value at every selected position equals
  the selected value. So a returned variant is a variant of the product that matches at
  every position; nothing is returned exactly when every variant differs from the
  selection at some position; and when at most one variant matches the selection (option
  tuples are unique), every matching variant is the one returned.
\<close>

theorem getVariantFromOptions_resolves:
  assumes "pf_product f = Some p"
  shows "(case getVariantFromOptions f opts of
            None \<Rightarrow> \<forall>v \<in> set (variants p). \<exists>i < length opts. variant_option v i \<noteq> Some (opts ! i)
          | Some v \<Rightarrow> v \<in> set (variants p) \<and> (\<forall>i < length opts. variant_option v i = Some (opts ! i)))
       \<and> getVariantFromOptions f opts
           = find (\<lambda>v. \<forall>i < length opts. variant_option v i = Some (opts ! i)) (variants p)
       \<and> ((\<forall>v \<in> set (variants p). \<forall>v' \<in> set (variants p).
              (\<forall>i < length opts. variant_option v i = Some (opts ! i)) \<and>
              (\<forall>i < length opts. variant_option v' i = Some (opts ! i)) \<longrightarrow> v = v')
            \<longrightarrow> (\<forall>v \<in> set (variants p).
                   (\<forall>i < length opts. variant_option v i = Some (opts ! i))
                   \<longrightarrow> getVariantFromOptions f opts = Some v))"
proof -
  define P where "P = (\<lambda>v. \<forall>i < length opts. variant_option v i = Some (opts ! i))"
  have mo: "matches_options opts = P"
    unfolding P_def by (rule ext) (rule matches_options_iff)
  have eq: "getVariantFromOptions f opts = find P (variants p)"
    using assms by (simp add: getVariantFromOptions_def mo)
  have a: "(case find P (variants p) of
            None \<Rightarrow> \<forall>v \<in> set (variants p). \<not> P v
          | Some v \<Rightarrow> v \<in> set (variants p) \<and> P v)"
  proof (cases "find P (variants p)")
    case None
    have "\<forall>v \<in> set (variants p). \<not> P v"
      using None find_None_iff [of P "variants p"] by blast
    with None show ?thesis by simp
  next
    case (Some y)
    then obtain i where "i < length (variants p)" "P (variants p ! i)" "y = variants p ! i"
      unfolding find_Some_iff by blast
    with Some show ?thesis by simp
  qed
  have c: "(\<forall>v \<in> set (variants p). \<forall>v' \<in> set (variants p). P v \<and> P v' \<longrightarrow> v = v')
            \<longrightarrow> (\<forall>v \<in> set (variants p). P v \<longrightarrow> find P (variants p) = Some v)"
  proof (intro impI ballI)
    fix v assume u: "\<forall>v \<in> set (variants p). \<forall>v' \<in> set (variants p). P v \<and> P v' \<longrightarrow> v = v'"
      and v: "v \<in> set (variants p)" "P v"
    from u v have "\<forall>y \<in> set (variants p). P y \<longrightarrow> y = v" by blast
    with v show "find P (variants p) = Some v" by (rule find_unique)
  qed
  have a': "(case find P (variants p) of
            None \<Rightarrow> \<forall>v \<in> set (variants p). \<exists>i < length opts. variant_option v i \<noteq> Some (opts ! i)
          | Some v \<Rightarrow> v \<in> set (variants p) \<and> P v)"
    using a by (cases "find P (variants p)") (auto simp: P_def)
  show ?thesis unfolding eq using a' c unfolding P_def by blast
qed

theorem getVariantFromOptions_resolves_witness:
  "pf_product (ex_form ''Red'' ''M'') = Some ex_product
   \<and> getSelectedOptions (ex_form ''Red'' ''M'') = [''Red'', ''M'']
   \<and> getVariantFromOptions (ex_form ''Red'' ''M'') [''Red'', ''M''] = Some ex_red_m
   \<and> ex_red_m \<in> set (variants ex_product)
   \<and> variant_option ex_red_m 0 = Some ''Red'' \<and> variant_option ex_red_m 1 = Some ''M''"
proof -
  have h: "pf_product (ex_form ''Red'' ''M'') = Some ex_product"
    by (simp add: ex_form_def)
  have s: "getSelectedOptions (ex_form ''Red'' ''M'') = [''Red'', ''M'']"
    by code_simp
  have e: "getVariantFromOptions (ex_form ''Red'' ''M'') [''Red'', ''M''] = Some ex_red_m"
    by code_simp
  from getVariantFromOptions_resolves [OF h, of "[''Red'', ''M'']"] e
  have m: "ex_red_m \<in> set (variants ex_product)"
    and a: "\<forall>i < length [''Red'', ''M'']. variant_option ex_red_m i = Some ([''Red'', ''M''] ! i)"
    by simp_all
  from a have "variant_option ex_red_m 0 = Some ''Red''" by simp
  moreover from a have "variant_option ex_red_m 1 = Some ''M''" by fastforce
  ultimately show ?thesis using h s e m by simp
qed

lemma updateVariantId_frame [simp]:
  "pf_product (updateVariantId v f) = pf_product f"
  "priceContainer (updateVariantId v f) = priceContainer f"
  "addToCartBtn (updateVariantId v f) = addToCartBtn f"
  "skuContainer (updateVariantId v f) = skuContainer f"
  "optionGroups (updateVariantId v f) = optionGroups f"
  "gallery_state (updateVariantId v f) = gallery_state f"
  "location (updateVariantId v f) = location f"
  "replaceState_log (updateVariantId v f) = replaceState_log f"
  by (simp_all add: updateVariantId_def split: option.splits)

lemma updatePrice_frame [simp]:
  "pf_product (updatePrice w v f) = pf_product f"
  "variantIdInput (updatePrice w v f) = variantIdInput f"
  "addToCartBtn (updatePrice w v f) = addToCartBtn f"
  "skuContainer (updatePrice w v f) = skuContainer f"
  "optionGroups (updatePrice w v f) = optionGroups f"
  "gallery_state (updatePrice w v f) = gallery_state f"
  "location (updatePrice w v f) = location f"
  "replaceState_log (updatePrice w v f) = replaceState_log f"
  by (simp_all add: updatePrice_def split: option.splits)

lemma updateAddToCartButton_frame [simp]:
  "pf_product (updateAddToCartButton w v f) = pf_product f"
  "variantIdInput (updateAddToCartButton w v f) = variantIdInput f"
  "priceContainer (updateAddToCartButton w v f) = priceContainer f"
  "skuContainer (updateAddToCartButton w v f) = skuContainer f"
  "optionGroups (updateAddToCartButton w v f) = optionGroups f"
  "gallery_state (updateAddToCartButton w v f) = gallery_state f"
  "location (updateAddToCartButton w v f) = location f"
  "replaceState_log (updateAddToCartButton w v f) = replaceState_log f"
  by (simp_all add: updateAddToCartButton_def split: option.splits)

lemma updateOptionLabels_frame [simp]:
  "pf_product (updateOptionLabels sel f) = pf_product f"
  "variantIdInput (updateOptionLabels sel f) = variantIdInput f"
  "priceContainer (updateOptionLabels sel f) = priceContainer f"
  "addToCartBtn (updateOptionLabels sel f) = addToCartBtn f"
  "skuContainer (updateOptionLabels sel f) = skuContainer f"
  "gallery_state (updateOptionLabels sel f) = gallery_state f"
  "location (updateOptionLabels sel f) = location f"
  "replaceState_log (updateOptionLabels sel f) = replaceState_log f"
  by (simp_all add: updateOptionLabels_def)

lemma updateSku_frame [simp]:
  "pf_product (updateSku v f) = pf_product f"
  "variantIdInput (updateSku v f) = variantIdInput f"
  "priceContainer (updateSku v f) = priceContainer f"
  "addToCartBtn (updateSku v f) = addToCartBtn f"
  "optionGroups (updateSku v f) = optionGroups f"
  "gallery_state (updateSku v f) = gallery_state f"
  "location (updateSku v f) = location f"
  "replaceState_log (updateSku v f) = replaceState_log f"
  by (simp_all add: updateSku_def split: option.splits)

lemma updateUrl_frame [simp]:
  "pf_product (updateUrl v f) = pf_product f"
  "variantIdInput (updateUrl v f) = variantIdInput f"
  "priceContainer (updateUrl v f) = priceContainer f"
  "addToCartBtn (updateUrl v f) = addToCartBtn f"
  "skuContainer (updateUrl v f) = skuContainer f"
  "optionGroups (updateUrl v f) = optionGroups f"
  "gallery_state (updateUrl v f) = gallery_state f"
  by (simp_all add: updateUrl_def Let_def split: option.splits)

lemma updateOptionAvailability_frame [simp]:
  "pf_product (snd (updateOptionAvailability sel f)) = pf_product f"
  "variantIdInput (snd (updateOptionAvailability sel f)) = variantIdInput f"
  "priceContainer (snd (updateOptionAvailability sel f)) = priceContainer f"
  "addToCartBtn (snd (updateOptionAvailability sel f)) = addToCartBtn f"
  "skuContainer (snd (updateOptionAvailability sel f)) = skuContainer f"
  "gallery_state (snd (updateOptionAvailability sel f)) = gallery_state f"
  "location (snd (updateOptionAvailability sel f)) = location f"
  "replaceState_log (snd (updateOptionAvailability sel f)) = replaceState_log f"
  by (simp_all add: updateOptionAvailability_def split: option.splits prod.splits)

lemma update_buttons_recorded:
  "map (\<lambda>b. map_option (\<lambda>i. (inp_value i, inp_checked i)) (btn_input b))
     (snd (update_buttons p sel g bs))
   = map (\<lambda>b. map_option (\<lambda>i. (inp_value i, inp_checked i)) (btn_input b)) bs"
  by (induction bs) (simp_all add: Let_def split_beta split: option.splits)

lemma update_groups_recorded:
  "map recorded (snd (update_groups p sel g gs)) = map recorded gs"
proof (induction gs arbitrary: g)
  case Nil
  show ?case by simp
next
  case (Cons x xs)
  have b: "recorded (x\<lparr>buttons := snd (update_buttons p sel g (buttons x))\<rparr>) = recorded x"
    by (simp add: recorded_def update_buttons_recorded)
  show ?case
  proof (cases "update_buttons p sel g (buttons x)")
    case (Pair c bs')
    with b have b': "recorded (x\<lparr>buttons := bs'\<rparr>) = recorded x" by simp
    show ?thesis
    proof (cases c)
      case Normal
      with Pair b' Cons.IH [of "Suc g"] show ?thesis
        by (simp add: split_beta)
    next
      case TypeError
      with Pair b' show ?thesis by simp
    qed
  qed
qed

lemma update_groups_value_span:
  "map value_span (snd (update_groups p sel g gs)) = map value_span gs"
proof (induction gs arbitrary: g)
  case Nil
  show ?case by simp
next
  case (Cons x xs)
  show ?case
  proof (cases "update_buttons p sel g (buttons x)")
    case (Pair c bs')
    show ?thesis
    proof (cases c)
      case Normal
      with Pair Cons.IH [of "Suc g"] show ?thesis
        by (simp add: split_beta)
    next
      case TypeError
      with Pair show ?thesis by simp
    qed
  qed
qed

lemma first_checked_recorded:
  "map_option inp_value (find inp_checked (group_inputs g))
   = map_option fst (find snd (List.map_filter (\<lambda>x. x) (recorded g)))"
proof -
  have "map_option inp_value (find inp_checked (List.map_filter btn_input bs))
        = map_option fst (find snd (List.map_filter (\<lambda>x. x)
            (map (\<lambda>b. map_option (\<lambda>i. (inp_value i, inp_checked i)) (btn_input b)) bs)))" for bs
    by (induction bs) (simp_all split: option.splits)
  then show ?thesis by (simp add: group_inputs_def recorded_def)
qed

lemma getSelectedOptions_recorded:
  "getSelectedOptions f
   = List.map_filter (\<lambda>r. map_option fst (find snd (List.map_filter (\<lambda>x. x) r)))
       (map recorded (optionGroups f))"
proof -
  have "List.map_filter (\<lambda>g. map_option inp_value (find inp_checked (group_inputs g))) gs
        = List.map_filter (\<lambda>r. map_option fst (find snd (List.map_filter (\<lambda>x. x) r)))
            (map recorded gs)" for gs
    by (induction gs) (simp_all add: first_checked_recorded split: option.splits)
  then show ?thesis by (simp add: getSelectedOptions_def)
qed

lemma updateOptionAvailability_groups:
  "map recorded (optionGroups (snd (updateOptionAvailability sel f))) = map recorded (optionGroups f)"
  "map value_span (optionGroups (snd (updateOptionAvailability sel f))) = map value_span (optionGroups f)"
proof -
  show "map recorded (optionGroups (snd (updateOptionAvailability sel f))) = map recorded (optionGroups f)"
  proof (cases "pf_product f")
    case None
    then show ?thesis by (simp add: updateOptionAvailability_def)
  next
    case (Some p)
    with update_groups_recorded [of p sel 0 "optionGroups f"] show ?thesis
      by (simp add: updateOptionAvailability_def split_beta)
  qed
  show "map value_span (optionGroups (snd (updateOptionAvailability sel f))) = map value_span (optionGroups f)"
  proof (cases "pf_product f")
    case None
    then show ?thesis by (simp add: updateOptionAvailability_def)
  next
    case (Some p)
    with update_groups_value_span [of p sel 0 "optionGroups f"] show ?thesis
      by (simp add: updateOptionAvailability_def split_beta)
  qed
qed

text \<open>
  C7. \<open>updateOptionAvailability\<close> reads the inputs of every group and writes only the
  \<open>disabled\<close> flag of an input and the unavailable class of its button: the value and
  the checked flag of every input of every group are as before, so the selection read
  back by \<open>getSelectedOptions\<close> is the same, and so are the option labels. This holds
  for every product and selection, in particular for products with two or more options,
  the only ones on which the function writes at all; it also holds when the function
  stops at a button that has no input.
\<close>

theorem updateOptionAvailability_keeps_selection:
  "map recorded (optionGroups (snd (updateOptionAvailability sel f))) = map recorded (optionGroups f)
   \<and> getSelectedOptions (snd (updateOptionAvailability sel f)) = getSelectedOptions f
   \<and> map value_span (optionGroups (snd (updateOptionAvailability sel f)))
       = map value_span (optionGroups f)"
  by (simp add: getSelectedOptions_recorded updateOptionAvailability_groups)

theorem updateOptionAvailability_keeps_selection_witness:
  "getSelectedOptions (snd (updateOptionAvailability [''Blue'', ''M''] (ex_form ''Blue'' ''M'')))
     = [''Blue'', ''M'']
   \<and> map recorded (optionGroups (snd (updateOptionAvailability [''Blue'', ''M''] (ex_form ''Blue'' ''M''))))
     = [[Some (''Red'', False), Some (''Blue'', True)], [Some (''S'', False), Some (''M'', True)]]
   \<and> map (\<lambda>g. map (\<lambda>b. map_option inp_disabled (btn_input b)) (buttons g))
        (optionGroups (snd (updateOptionAvailability [''Blue'', ''M''] (ex_form ''Blue'' ''M''))))
     = [[Some False, Some False], [Some False, Some True]]"
proof -
  have s: "getSelectedOptions (ex_form ''Blue'' ''M'') = [''Blue'', ''M'']"
    by code_simp
  have r: "map recorded (optionGroups (ex_form ''Blue'' ''M''))
     = [[Some (''Red'', False), Some (''Blue'', True)], [Some (''S'', False), Some (''M'', True)]]"
    by code_simp
  have d: "map (\<lambda>g. map (\<lambda>b. map_option inp_disabled (btn_input b)) (buttons g))
        (optionGroups (snd (updateOptionAvailability [''Blue'', ''M''] (ex_form ''Blue'' ''M''))))
     = [[Some False, Some False], [Some False, Some True]]"
    by code_simp
  from updateOptionAvailability_keeps_selection [of "[''Blue'', ''M'']" "ex_form ''Blue'' ''M''"] s r d
  show ?thesis by simp
qed

lemma no_variant_noop [simp]:
  "updateVariantId None f = f" "updatePrice w None f = f" "updateUrl None f = f"
  by (simp_all add: updateVariantId_def updatePrice_def updateUrl_def split: option.splits)

lemma onOptionChange_no_match:
  assumes "getVariantFromOptions f (getSelectedOptions f) = None"
  shows "snd (onOptionChange w f)
         = snd (updateOptionAvailability (getSelectedOptions f)
             (updateSku None (updateOptionLabels (getSelectedOptions f)
                (updateAddToCartButton w None f))))"
  using assms
  by (simp add: onOptionChange_def Let_def split: prod.splits completion.splits)

lemma onOptionChange_variantIdInput:
  "variantIdInput (snd (onOptionChange w f))
   = variantIdInput (updateVariantId (getVariantFromOptions f (getSelectedOptions f)) f)"
  by (simp add: onOptionChange_def Let_def split_beta split: completion.splits option.splits prod.splits)

lemma label_group_value_span:
  "value_span (label_group sel (i, g))
   = (case value_span g of None \<Rightarrow> None
      | Some old \<Rightarrow> Some (if i < length sel \<and> sel ! i \<noteq> [] then sel ! i else old))"
  by (simp add: label_group_def split: option.splits)

lemma updateOptionLabels_nth:
  assumes "i < length (optionGroups f)"
  shows "value_span (optionGroups (updateOptionLabels sel f) ! i)
         = (case value_span (optionGroups f ! i) of None \<Rightarrow> None
            | Some old \<Rightarrow> Some (if i < length sel \<and> sel ! i \<noteq> [] then sel ! i else old))"
  using assms by (simp add: updateOptionLabels_def nth_enumerate_eq label_group_value_span)

text \<open>
  C10. When the selection matches no variant, the option-change handler leaves the hidden
  variant-id input and the price container as they were: \<open>updateVariantId\<close> and
  \<open>updatePrice\<close> return the form unchanged for no variant. In general the variant-id
  input after an option change is either what it was or the id of a variant of the
  product.
\<close>

theorem no_match_keeps_variant_id_and_price:
  "(getVariantFromOptions f (getSelectedOptions f) = None \<longrightarrow>
      variantIdInput (snd (onOptionChange w f)) = variantIdInput f
      \<and> priceContainer (snd (onOptionChange w f)) = priceContainer f)
   \<and> updateVariantId None f = f \<and> updatePrice w None f = f
   \<and> (variantIdInput (snd (onOptionChange w f)) = variantIdInput f
      \<or> (\<exists>p v. pf_product f = Some p \<and> v \<in> set (variants p)
            \<and> variantIdInput (snd (onOptionChange w f)) = Some (string_of_int (variant_id v))))"
proof -
  have a: "getVariantFromOptions f (getSelectedOptions f) = None \<longrightarrow>
      variantIdInput (snd (onOptionChange w f)) = variantIdInput f
      \<and> priceContainer (snd (onOptionChange w f)) = priceContainer f"
    by (simp add: onOptionChange_no_match)
  have b: "variantIdInput (snd (onOptionChange w f)) = variantIdInput f
      \<or> (\<exists>p v. pf_product f = Some p \<and> v \<in> set (variants p)
            \<and> variantIdInput (snd (onOptionChange w f)) = Some (string_of_int (variant_id v)))"
  proof (cases "getVariantFromOptions f (getSelectedOptions f)")
    case None
    with a show ?thesis by simp
  next
    case (Some v)
    then obtain p where p: "pf_product f = Some p"
      by (cases "pf_product f") (simp_all add: getVariantFromOptions_def)
    with Some have "find (matches_options (getSelectedOptions f)) (variants p) = Some v"
      by (simp add: getVariantFromOptions_def)
    then obtain i where "i < length (variants p)" "v = variants p ! i"
      unfolding find_Some_iff by blast
    then have m: "v \<in> set (variants p)" by simp
    show ?thesis
    proof (cases "variantIdInput f")
      case None
      with Some show ?thesis
        by (simp add: onOptionChange_variantIdInput updateVariantId_def)
    next
      case (Some old)
      with \<open>getVariantFromOptions f (getSelectedOptions f) = Some v\<close>
      have "variantIdInput (snd (onOptionChange w f)) = Some (string_of_int (variant_id v))"
        by (simp add: onOptionChange_variantIdInput updateVariantId_def)
      with p m show ?thesis by blast
    qed
  qed
  from a b show ?thesis by simp
qed

theorem no_match_keeps_variant_id_and_price_witness:
  \<open>getVariantFromOptions (ex_form ''Blue'' ''M'') (getSelectedOptions (ex_form ''Blue'' ''M'')) = None
   \<and> variantIdInput (snd (onOptionChange ex_window (ex_form ''Blue'' ''M''))) = Some ''101''
   \<and> priceContainer (snd (onOptionChange ex_window (ex_form ''Blue'' ''M'')))
       = Some ''<span class="product__price-regular">10.00 RSD</span>''\<close>
proof -
  have h: "getVariantFromOptions (ex_form ''Blue'' ''M'') (getSelectedOptions (ex_form ''Blue'' ''M'')) = None"
    by code_simp
  from no_match_keeps_variant_id_and_price [of "ex_form ''Blue'' ''M''" ex_window] h
  have "variantIdInput (snd (onOptionChange ex_window (ex_form ''Blue'' ''M'')))
          = variantIdInput (ex_form ''Blue'' ''M'')"
    and "priceContainer (snd (onOptionChange ex_window (ex_form ''Blue'' ''M'')))
          = priceContainer (ex_form ''Blue'' ''M'')"
    by blast+
  with h show ?thesis by (simp add: ex_form_def)
qed

lemma no_match_writes:
  assumes "getVariantFromOptions f (getSelectedOptions f) = None"
  shows "(\<forall>i < length (optionGroups f).
            value_span (optionGroups (snd (onOptionChange w f)) ! i)
            = (case value_span (optionGroups f ! i) of None \<Rightarrow> None
               | Some old \<Rightarrow>
                   Some (if i < length (getSelectedOptions f) \<and> getSelectedOptions f ! i \<noteq> []
                         then getSelectedOptions f ! i else old)))
       \<and> (\<forall>b. addToCartBtn f = Some b \<longrightarrow>
             addToCartBtn (snd (onOptionChange w f))
             = Some (b\<lparr>sb_disabled := True, sb_text := translation w t_unavailable ''Unavailable''\<rparr>))
       \<and> location (snd (onOptionChange w f)) = location f
       \<and> replaceState_log (snd (onOptionChange w f)) = replaceState_log f"
proof -
  let ?sel = "getSelectedOptions f"
  let ?g = "updateSku None (updateOptionLabels ?sel (updateAddToCartButton w None f))"
  have eq: "snd (onOptionChange w f) = snd (updateOptionAvailability ?sel ?g)"
    using assms by (rule onOptionChange_no_match)
  have len: "length (optionGroups (snd (updateOptionAvailability ?sel ?g))) = length (optionGroups f)"
    using arg_cong [OF updateOptionAvailability_groups(2) [of ?sel ?g], of length]
    by (simp add: updateOptionLabels_def)
  have lab: "value_span (optionGroups (snd (onOptionChange w f)) ! i)
            = (case value_span (optionGroups f ! i) of None \<Rightarrow> None
               | Some old \<Rightarrow>
                   Some (if i < length ?sel \<and> ?sel ! i \<noteq> [] then ?sel ! i else old))"
    if i: "i < length (optionGroups f)" for i
  proof -
    have "value_span (optionGroups (snd (updateOptionAvailability ?sel ?g)) ! i)
          = map value_span (optionGroups (snd (updateOptionAvailability ?sel ?g))) ! i"
      using i len by simp
    also have "\<dots> = map value_span (optionGroups ?g) ! i"
      by (simp only: updateOptionAvailability_groups(2))
    also have "\<dots> = value_span (optionGroups (updateOptionLabels ?sel (updateAddToCartButton w None f)) ! i)"
      using i by (simp add: updateOptionLabels_def)
    also have "\<dots> = (case value_span (optionGroups f ! i) of None \<Rightarrow> None
               | Some old \<Rightarrow>
                   Some (if i < length ?sel \<and> ?sel ! i \<noteq> [] then ?sel ! i else old))"
      using i updateOptionLabels_nth [of i "updateAddToCartButton w None f" ?sel] by simp
    finally show ?thesis by (simp only: eq)
  qed
  have btn: "addToCartBtn (snd (onOptionChange w f))
             = Some (b\<lparr>sb_disabled := True, sb_text := translation w t_unavailable ''Unavailable''\<rparr>)"
    if "addToCartBtn f = Some b" for b
    using that by (simp add: eq updateAddToCartButton_def)
  have url: "location (snd (onOptionChange w f)) = location f"
    "replaceState_log (snd (onOptionChange w f)) = replaceState_log f"
    by (simp_all add: eq)
  from lab btn url show ?thesis by blast
qed

lemma getSelectedOptions_complete:
  assumes "\<forall>g \<in> set (optionGroups f). \<exists>v. checked_value g = Some v"
  shows "getSelectedOptions f = map (\<lambda>g. the (checked_value g)) (optionGroups f)"
proof -
  have "(\<forall>g \<in> set gs. \<exists>v. checked_value g = Some v) \<Longrightarrow>
        List.map_filter checked_value gs = map (\<lambda>g. the (checked_value g)) gs" for gs
    by (induction gs) auto
  moreover have "getSelectedOptions f = List.map_filter checked_value (optionGroups f)"
    by (simp add: getSelectedOptions_def checked_value_def [abs_def])
  ultimately show ?thesis using assms by simp
qed

text \<open>
  C2, as amended. When the selection, a non-empty checked value in every option group,
  matches no variant, the option-change handler writes into the label of every group
  (where the label element exists) the value checked in that group, and it disables the
  submit button, if there is one, with the text \<open>window.translations.unavailable\<close> or
  else \<open>Unavailable\<close>. The page URL is not touched: \<open>updateUrl\<close> returns at once and
  \<open>history.replaceState\<close> is not called.
\<close>

theorem no_match_labels_button_url:
  assumes "getVariantFromOptions f (getSelectedOptions f) = None"
    and "\<forall>g \<in> set (optionGroups f). \<exists>v. checked_value g = Some v \<and> v \<noteq> []"
  shows "(\<forall>i < length (optionGroups f). \<forall>v. checked_value (optionGroups f ! i) = Some v \<longrightarrow>
            value_span (optionGroups (snd (onOptionChange w f)) ! i)
            = map_option (\<lambda>old. v) (value_span (optionGroups f ! i)))
       \<and> (\<forall>b. addToCartBtn f = Some b \<longrightarrow>
             addToCartBtn (snd (onOptionChange w f))
             = Some (b\<lparr>sb_disabled := True, sb_text := translation w t_unavailable ''Unavailable''\<rparr>))
       \<and> location (snd (onOptionChange w f)) = location f
       \<and> replaceState_log (snd (onOptionChange w f)) = replaceState_log f"
proof -
  from assms(2) have all: "\<forall>g \<in> set (optionGroups f). \<exists>v. checked_value g = Some v"
    by blast
  have sel: "getSelectedOptions f = map (\<lambda>g. the (checked_value g)) (optionGroups f)"
    using all by (rule getSelectedOptions_complete)
  note w = no_match_writes [OF assms(1), of w]
  have lab: "value_span (optionGroups (snd (onOptionChange w f)) ! i)
            = map_option (\<lambda>old. v) (value_span (optionGroups f ! i))"
    if i: "i < length (optionGroups f)" and v: "checked_value (optionGroups f ! i) = Some v" for i v
  proof -
    from i have "optionGroups f ! i \<in> set (optionGroups f)" by simp
    with assms(2) v have ne: "v \<noteq> []" by fastforce
    from i v have s: "i < length (getSelectedOptions f)" "getSelectedOptions f ! i = v"
      by (simp_all add: sel)
    from w i have "value_span (optionGroups (snd (onOptionChange w f)) ! i)
            = (case value_span (optionGroups f ! i) of None \<Rightarrow> None
               | Some old \<Rightarrow>
                   Some (if i < length (getSelectedOptions f) \<and> getSelectedOptions f ! i \<noteq> []
                         then getSelectedOptions f ! i else old))"
      by blast
    with s ne show ?thesis by (simp split: option.splits)
  qed
  from lab w show ?thesis by blast
qed

theorem no_match_labels_button_url_witness:
  "getVariantFromOptions (ex_form ''Blue'' ''M'') (getSelectedOptions (ex_form ''Blue'' ''M'')) = None
   \<and> map checked_value (optionGroups (ex_form ''Blue'' ''M'')) = [Some ''Blue'', Some ''M'']
   \<and> value_span (optionGroups (snd (onOptionChange ex_window (ex_form ''Blue'' ''M''))) ! 0) = Some ''Blue''
   \<and> value_span (optionGroups (snd (onOptionChange ex_window (ex_form ''Blue'' ''M''))) ! 1) = Some ''M''
   \<and> addToCartBtn (snd (onOptionChange ex_window (ex_form ''Blue'' ''M'')))
       = Some \<lparr>sb_disabled = True, sb_text = ''Unavailable''\<rparr>
   \<and> location (snd (onOptionChange ex_window (ex_form ''Blue'' ''M''))) = location (ex_form ''Blue'' ''M'')
   \<and> replaceState_log (snd (onOptionChange ex_window (ex_form ''Blue'' ''M''))) = []"
proof -
  let ?F = "ex_form ''Blue'' ''M''"
  have h: "getVariantFromOptions ?F (getSelectedOptions ?F) = None"
    by code_simp
  have cv: "map checked_value (optionGroups ?F) = [Some ''Blue'', Some ''M'']"
    by code_simp
  have c: "\<forall>g \<in> set (optionGroups ?F). \<exists>v. checked_value g = Some v \<and> v \<noteq> []"
  proof
    fix g assume "g \<in> set (optionGroups ?F)"
    then have "checked_value g \<in> set (map checked_value (optionGroups ?F))" by simp
    then show "\<exists>v. checked_value g = Some v \<and> v \<noteq> []" unfolding cv by auto
  qed
  have u: "translation ex_window t_unavailable ''Unavailable'' = ''Unavailable''"
    by (simp add: translation_def ex_window_def or_default_def)
  have len: "length (optionGroups ?F) = 2"
    and v0: "value_span (optionGroups ?F ! 0) = Some ''Red''"
    and v1: "value_span (optionGroups ?F ! 1) = Some ''S''"
    and ab: "addToCartBtn ?F = Some \<lparr>sb_disabled = False, sb_text = ''Add to Cart''\<rparr>"
    by (simp_all add: ex_form_def)
  have i0: "0 < length (optionGroups ?F)" and i1: "1 < length (optionGroups ?F)"
    by (simp_all add: len)
  have c0: "checked_value (optionGroups ?F ! 0) = Some ''Blue''"
    using arg_cong [OF cv, of "\<lambda>xs. xs ! 0"] i0 by simp
  have c1: "checked_value (optionGroups ?F ! 1) = Some ''M''"
    using arg_cong [OF cv, of "\<lambda>xs. xs ! 1"] i1 by simp
  note t = no_match_labels_button_url [OF h c, of ex_window]
  from t have lab: "\<forall>i < length (optionGroups ?F). \<forall>v. checked_value (optionGroups ?F ! i) = Some v \<longrightarrow>
            value_span (optionGroups (snd (onOptionChange ex_window ?F)) ! i)
            = map_option (\<lambda>old. v) (value_span (optionGroups ?F ! i))"
    by blast
  have l0: "value_span (optionGroups (snd (onOptionChange ex_window ?F)) ! 0) = Some ''Blue''"
    using lab [rule_format, OF i0 c0] unfolding v0 by simp
  have l1: "value_span (optionGroups (snd (onOptionChange ex_window ?F)) ! 1) = Some ''M''"
    using lab [rule_format, OF i1 c1] unfolding v1 by simp
  from t have "\<forall>b. addToCartBtn ?F = Some b \<longrightarrow>
             addToCartBtn (snd (onOptionChange ex_window ?F))
             = Some (b\<lparr>sb_disabled := True, sb_text := translation ex_window t_unavailable ''Unavailable''\<rparr>)"
    by blast
  from this [rule_format, of "\<lparr>sb_disabled = False, sb_text = ''Add to Cart''\<rparr>"]
  have b: "addToCartBtn (snd (onOptionChange ex_window ?F))
       = Some \<lparr>sb_disabled = True, sb_text = ''Unavailable''\<rparr>"
    by (simp add: u ab)
  from t have l: "location (snd (onOptionChange ex_window ?F)) = location ?F"
    and r: "replaceState_log (snd (onOptionChange ex_window ?F)) = replaceState_log ?F"
    by blast+
  from r have r': "replaceState_log (snd (onOptionChange ex_window ?F)) = []"
    by (simp add: ex_form_def)
  from h cv l0 l1 b l r' show ?thesis by blast
qed

text \<open>
  The claim C2 as written also has the URL updated. On the example page with Blue and M
  checked no variant matches, nothing is handed to \<open>history.replaceState\<close>, and the URL
  still names variant 101.
\<close>

theorem no_match_url_counterexample:
  "getSelectedOptions (ex_form ''Blue'' ''M'') = [''Blue'', ''M'']
   \<and> getVariantFromOptions (ex_form ''Blue'' ''M'') [''Blue'', ''M''] = None
   \<and> replaceState_log (snd (onOptionChange ex_window (ex_form ''Blue'' ''M''))) = []
   \<and> location (snd (onOptionChange ex_window (ex_form ''Blue'' ''M'')))
       = \<lparr>url_base = ''/products/shirt'', searchParams = [(''variant'', ''101'')], url_hash = []\<rparr>"
  by code_simp

section \<open>Properties of the cart drawer\<close>

lemma fetch_simps [simp]:
  "fst (fetch net rq d) = net (length (sent d))"
  "snd (fetch net rq d) = d\<lparr>sent := sent d @ [rq]\<rparr>"
  by (simp_all add: fetch_def)

lemma updateDrawerContent_frame [simp]:
  "sent (updateDrawerContent c d) = sent d"
  "console (updateDrawerContent c d) = console d"
  "loading (updateDrawerContent c d) = loading d"
  "header_counts (updateDrawerContent c d) = header_counts d"
  by (simp_all add: updateDrawerContent_def Let_def split: option.splits)

lemma updateDrawerContent_display:
  "countEl (updateDrawerContent c d)
     = (case countEl d of None \<Rightarrow> None | Some old \<Rightarrow> Some (''('' @ string_of_int (item_count c) @ '')''))"
  "subtotalEl (updateDrawerContent c d)
     = (case subtotalEl d of None \<Rightarrow> None | Some old \<Rightarrow> Some (cd_formatMoney (total_price c)))"
  "reloads (updateDrawerContent c d) = (if item_count c = 0 then Suc (reloads d) else reloads d)"
  by (simp_all add: updateDrawerContent_def Let_def split: option.splits)

text \<open>The snapshot the two reads of refresh deliver, if they do.\<close>

lemma refresh_cases:
  "refresh net d =
     (case net (length (sent d)) of
        Response ok1 (Some html) js1 \<Rightarrow>
          (case net (Suc (length (sent d))) of
             Response ok2 tx2 (Some c) \<Rightarrow>
               updateDrawerContent c (d\<lparr>sent := sent d @ [GetSection, GetCart]\<rparr>)
           | _ \<Rightarrow> d\<lparr>sent := sent d @ [GetSection, GetCart],
                     console := console d @ [''Error refreshing cart:'']\<rparr>)
      | _ \<Rightarrow> d\<lparr>sent := sent d @ [GetSection],
                console := console d @ [''Error refreshing cart:'']\<rparr>)"
  by (simp add: refresh_def refresh_try_def fetch_def
           split: fetch_result.splits option.splits)

lemma refresh_sent:
  "\<exists>rest. sent (refresh net d) = sent d @ rest"
  unfolding refresh_cases by (auto split: fetch_result.splits option.splits)

lemma header_fetches_frame:
  "\<exists>rest. sent (snd (header_fetches net els d)) = sent d @ rest"
  "countEl (snd (header_fetches net els d)) = countEl d"
  "subtotalEl (snd (header_fetches net els d)) = subtotalEl d"
  "reloads (snd (header_fetches net els d)) = reloads d"
  "console (snd (header_fetches net els d)) = console d"
  "loading (snd (header_fetches net els d)) = loading d"
proof -
  have "(\<exists>rest. sent (snd (header_fetches net els d)) = sent d @ rest)
        \<and> countEl (snd (header_fetches net els d)) = countEl d
        \<and> subtotalEl (snd (header_fetches net els d)) = subtotalEl d
        \<and> reloads (snd (header_fetches net els d)) = reloads d
        \<and> console (snd (header_fetches net els d)) = console d
        \<and> loading (snd (header_fetches net els d)) = loading d"
  proof (induction els arbitrary: d)
    case Nil
    show ?case by simp
  next
    case (Cons el els)
    from Cons.IH [of "d\<lparr>sent := sent d @ [GetCart]\<rparr>"]
    show ?case by (auto simp add: fetch_def Let_def split_beta)
  qed
  then show
    "\<exists>rest. sent (snd (header_fetches net els d)) = sent d @ rest"
    "countEl (snd (header_fetches net els d)) = countEl d"
    "subtotalEl (snd (header_fetches net els d)) = subtotalEl d"
    "reloads (snd (header_fetches net els d)) = reloads d"
    "console (snd (header_fetches net els d)) = console d"
    "loading (snd (header_fetches net els d)) = loading d"
    by blast+
qed

lemma updateHeaderCount_frame:
  "\<exists>rest. sent (updateHeaderCount net d) = sent d @ rest"
  "countEl (updateHeaderCount net d) = countEl d"
  "subtotalEl (updateHeaderCount net d) = subtotalEl d"
  "reloads (updateHeaderCount net d) = reloads d"
  "console (updateHeaderCount net d) = console d"
  "loading (updateHeaderCount net d) = loading d"
  using header_fetches_frame [of net "header_counts d" d]
  by (simp_all add: updateHeaderCount_def split_beta)

lemma updateItem_network_error:
  assumes "net (length (sent d)) = NetworkError"
  shows "updateItem net lineKey quantity d
         = Returned (d\<lparr>loading := False,
                         console := console d @ [''Error updating cart:''],
                         sent := sent d @ [CartChange lineKey quantity]\<rparr>)"
  using assms by (simp add: updateItem_def updateItem_try_def setLoading_def fetch_def)

lemma updateItem_not_ok:
  assumes "net (length (sent d)) = Response False tx js"
  shows "updateItem net lineKey quantity d
         = Returned (d\<lparr>loading := False, sent := sent d @ [CartChange lineKey quantity]\<rparr>)"
  using assms by (simp add: updateItem_def updateItem_try_def setLoading_def fetch_def)

lemma updateItem_ok:
  assumes "net (length (sent d)) = Response True tx js"
  shows "updateItem net lineKey quantity d
         = Returned (setLoading False (updateHeaderCount net
             (refresh net (d\<lparr>loading := True, sent := sent d @ [CartChange lineKey quantity]\<rparr>))))"
  using assms by (simp add: updateItem_def updateItem_try_def setLoading_def fetch_def)

lemma updateItem_first_request:
  "\<exists>d' rest. updateItem net lineKey quantity d = Returned d'
      \<and> sent d' = sent d @ CartChange lineKey quantity # rest"
proof (cases "net (length (sent d))")
  case NetworkError
  then show ?thesis by (simp add: updateItem_network_error)
next
  case (Response ok tx js)
  show ?thesis
  proof (cases ok)
    case False
    with Response show ?thesis by (simp add: updateItem_not_ok)
  next
    case True
    let ?d1 = "d\<lparr>loading := True, sent := sent d @ [CartChange lineKey quantity]\<rparr>"
    obtain r1 where r1: "sent (refresh net ?d1) = sent ?d1 @ r1"
      using refresh_sent by blast
    obtain r2 where r2: "sent (updateHeaderCount net (refresh net ?d1)) = sent (refresh net ?d1) @ r2"
      using updateHeaderCount_frame(1) by blast
    from True Response r1 r2 show ?thesis
      by (simp add: updateItem_ok setLoading_def)
  qed
qed

text \<open>
  C3. In the drawer, a click on the minus button of an item whose quantity text parses
  to 1 does what a click on the item's remove button does: both are \<open>removeItem\<close>, which
  is \<open>updateItem\<close> with quantity 0, so on the same drawer and network the two handlers
  end in the same state, and the first request either sends is the change request with
  quantity 0 for that line key.
\<close>

theorem decrement_from_one_is_removal:
  assumes "parseInt text = Some 1"
  shows "minus_click net lineKey text d = remove_click net lineKey d
       \<and> remove_click net lineKey d = updateItem net lineKey 0 d
       \<and> removeItem net lineKey d = updateItem net lineKey 0 d
       \<and> (\<exists>d' rest. minus_click net lineKey text d = Returned d'
             \<and> sent d' = sent d @ CartChange lineKey 0 # rest)"
proof -
  from assms have q: "currentQty text = 1" by (simp add: currentQty_def)
  have m: "minus_click net lineKey text d = updateItem net lineKey 0 d"
    by (simp add: minus_click_def q removeItem_def)
  have r: "remove_click net lineKey d = updateItem net lineKey 0 d"
    by (simp add: remove_click_def removeItem_def)
  from updateItem_first_request [of net lineKey 0 d] m r show ?thesis
    by (simp add: removeItem_def)
qed

theorem decrement_from_one_is_removal_witness:
  "parseInt (Some ''1'') = Some 1
   \<and> minus_click ex_net_ok (Some ''key'') (Some ''1'') ex_drawer
       = remove_click ex_net_ok (Some ''key'') ex_drawer
   \<and> remove_click ex_net_ok (Some ''key'') ex_drawer = updateItem ex_net_ok (Some ''key'') 0 ex_drawer
   \<and> updateItem ex_net_ok (Some ''key'') 0 ex_drawer
       = Returned \<lparr>loading = False, countEl = Some ''(2)'', subtotalEl = Some ''24.00 RSD'',
           header_counts = [\<lparr>hc_text = ''2'', hc_hidden = False\<rparr>], reloads = 0, console = [],
           sent = [CartChange (Some ''key'') 0, GetSection, GetCart, GetCart]\<rparr>"
proof -
  have h: "parseInt (Some ''1'') = Some 1"
    by code_simp
  have e: "updateItem ex_net_ok (Some ''key'') 0 ex_drawer
       = Returned \<lparr>loading = False, countEl = Some ''(2)'', subtotalEl = Some ''24.00 RSD'',
           header_counts = [\<lparr>hc_text = ''2'', hc_hidden = False\<rparr>], reloads = 0, console = [],
           sent = [CartChange (Some ''key'') 0, GetSection, GetCart, GetCart]\<rparr>"
    by code_simp
  from decrement_from_one_is_removal [OF h, of ex_net_ok "Some ''key''" ex_drawer] h e
  show ?thesis by simp
qed

text \<open>
  The path the drawer is built for: when the change request is answered with an ok
  status and the two reads of \<open>refresh\<close>, of the cart section and of \<open>/cart.js\<close>, both
  deliver, the drawer's count and subtotal (where the elements exist) are the rendering
  of that \<open>/cart.js\<close> snapshot, whatever they or the requested quantity were, and a
  page reload is forced exactly when the snapshot's item count is zero.
\<close>

lemma updateItem_shows_snapshot:
  assumes "net (length (sent d)) = Response True tx js"
    and "net (Suc (length (sent d))) = Response ok1 (Some html) js1"
    and "net (Suc (Suc (length (sent d)))) = Response ok2 tx2 (Some c)"
  shows "\<exists>d'. updateItem net lineKey quantity d = Returned d'
     \<and> (\<exists>rest. sent d' = sent d @ [CartChange lineKey quantity, GetSection, GetCart] @ rest)
     \<and> countEl d' = (case countEl d of None \<Rightarrow> None
                     | Some old \<Rightarrow> Some (''('' @ string_of_int (item_count c) @ '')''))
     \<and> subtotalEl d' = (case subtotalEl d of None \<Rightarrow> None
                     | Some old \<Rightarrow> Some (cd_formatMoney (total_price c)))
     \<and> reloads d' = (if item_count c = 0 then Suc (reloads d) else reloads d)
     \<and> console d' = console d"
proof -
  let ?d1 = "d\<lparr>loading := True, sent := sent d @ [CartChange lineKey quantity]\<rparr>"
  let ?d2 = "refresh net ?d1"
  let ?d3 = "updateHeaderCount net ?d2"
  have r: "updateItem net lineKey quantity d = Returned (setLoading False ?d3)"
    using assms(1) by (rule updateItem_ok)
  obtain rest where rest: "sent ?d3 = sent ?d2 @ rest"
    using updateHeaderCount_frame(1) by blast
  have d2: "?d2 = updateDrawerContent c (?d1\<lparr>sent := sent ?d1 @ [GetSection, GetCart]\<rparr>)"
    using assms(2,3) by (simp add: refresh_cases [of net ?d1])
  have "(\<exists>rest. sent (setLoading False ?d3)
                   = sent d @ [CartChange lineKey quantity, GetSection, GetCart] @ rest)
        \<and> countEl (setLoading False ?d3) = (case countEl d of None \<Rightarrow> None
                        | Some old \<Rightarrow> Some (''('' @ string_of_int (item_count c) @ '')''))
        \<and> subtotalEl (setLoading False ?d3) = (case subtotalEl d of None \<Rightarrow> None
                        | Some old \<Rightarrow> Some (cd_formatMoney (total_price c)))
        \<and> reloads (setLoading False ?d3)
            = (if item_count c = 0 then Suc (reloads d) else reloads d)
        \<and> console (setLoading False ?d3) = console d"
    using rest
    by (simp add: setLoading_def updateHeaderCount_frame d2 updateDrawerContent_display)
  with r show ?thesis by blast
qed

text \<open>
  C4. After a successful cart mutation the drawer's count and subtotal are to be set
  from a freshly fetched \<open>/cart.js\<close> snapshot. The code misses this when the section
  request fails: \<open>refresh\<close> awaits that request, whose parsed document it never uses,
  ahead of the \<open>/cart.js\<close> read and inside the same \<open>try\<close> block, so its rejection
  skips the read and \<open>updateDrawerContent\<close>. Here the change is answered with an ok
  status, the section request is rejected and \<open>/cart.js\<close> answers with 2 items for
  24.00: the drawer still shows 3 items for 36.00, while the header count, which makes
  its own request, shows 2. On the same drawer, with the section request answered,
  the drawer shows the snapshot.
\<close>

theorem section_failure_leaves_drawer_stale:
  "ex_net_section_fails (length (sent ex_drawer)) = Response True (Some ''{}'') None
   \<and> updateItem ex_net_section_fails (Some ''key'') 2 ex_drawer
       = Returned \<lparr>loading = False, countEl = Some ''(3)'', subtotalEl = Some ''36.00 RSD'',
           header_counts = [\<lparr>hc_text = ''2'', hc_hidden = False\<rparr>], reloads = 0,
           console = [''Error refreshing cart:''],
           sent = [CartChange (Some ''key'') 2, GetSection, GetCart]\<rparr>
   \<and> updateItem ex_net_ok (Some ''key'') 2 ex_drawer
       = Returned \<lparr>loading = False, countEl = Some ''(2)'', subtotalEl = Some ''24.00 RSD'',
           header_counts = [\<lparr>hc_text = ''2'', hc_hidden = False\<rparr>], reloads = 0, console = [],
           sent = [CartChange (Some ''key'') 2, GetSection, GetCart, GetCart]\<rparr>"
  by code_simp

text \<open>
  C8. A cart mutation request that fails, by a network error or by a status that is not
  a success, is to be caught and logged, with the display left as it was and the loading
  class cleared. The code does so for a network error; for an error status it leaves the
  display, clears the loading class and returns, but logs nothing: \<open>if (response.ok)\<close>
  has no other branch and nothing is thrown, so the \<open>catch\<close> clause that logs is never
  entered. Here the same change on the same drawer is once answered with an error status
  and once rejected by the network: the console stays empty in the first case and holds
  the error in the second.
\<close>

theorem status_failure_not_logged:
  "ex_net_status (length (sent ex_drawer)) = Response False (Some ''{}'') None
   \<and> updateItem ex_net_status (Some ''key'') 2 ex_drawer
       = Returned \<lparr>loading = False, countEl = Some ''(3)'', subtotalEl = Some ''36.00 RSD'',
           header_counts = [\<lparr>hc_text = ''3'', hc_hidden = False\<rparr>], reloads = 0,
           console = [],
           sent = [CartChange (Some ''key'') 2]\<rparr>
   \<and> net_of [] (length (sent ex_drawer)) = NetworkError
   \<and> updateItem (net_of []) (Some ''key'') 2 ex_drawer
       = Returned \<lparr>loading = False, countEl = Some ''(3)'', subtotalEl = Some ''36.00 RSD'',
           header_counts = [\<lparr>hc_text = ''3'', hc_hidden = False\<rparr>], reloads = 0,
           console = [''Error updating cart:''],
           sent = [CartChange (Some ''key'') 2]\<rparr>"
  by code_simp

section \<open>Properties of the filter forms\<close>

lemma form_params_filter:
  "form_params entries = filter (\<lambda>e. snd e \<noteq> []) entries"
proof -
  have "foldl (\<lambda>params (key, val). if val \<noteq> [] then params_append key val params else params)
          acc entries = acc @ filter (\<lambda>e. snd e \<noteq> []) entries" for acc
    by (induction entries arbitrary: acc) (auto simp: params_append_def)
  then show ?thesis by (simp add: form_params_def)
qed

lemma params_set_fresh:
  assumes "\<forall>e \<in> set ps. fst e \<noteq> k"
  shows "params_set k v ps = ps @ [(k, v)]"
  using assms by (simp add: params_set_def list_ex_iff)

lemma join_amp_snoc:
  "join_amp (xs @ [x]) = (if xs = [] then x else join_amp xs @ ''&'' @ x)"
  by (induction xs rule: join_amp.induct) simp_all

lemma params_toString_snoc:
  "params_toString (ps @ [(k, v)])
   = (if ps = [] then [] else params_toString ps @ ''&'') @ urlencoded k @ ''='' @ urlencoded v"
  by (simp add: params_toString_def join_amp_snoc)

lemma urlencoded_sort_by: "urlencoded ''sort_by'' = ''sort_by''"
  by code_simp

lemma SidebarFilters_same:
  "SidebarFilters_params entries loc = FiltersDrawer_params entries loc"
  "SidebarFilters_submitForm entries loc = FiltersDrawer_handleSubmit entries loc"
  by (simp_all add: SidebarFilters_params_def FiltersDrawer_params_def
        SidebarFilters_submitForm_def FiltersDrawer_handleSubmit_def)

text \<open>
  C9, as amended. Let the form carry no field named \<open>sort_by\<close>. If the current
  location has a \<open>sort_by\<close> parameter whose first value is not empty, both submit paths
  navigate to the path followed by the form's non-empty fields and then
  \<open>sort_by=\<close> with that value, percent-encoded. If the current location has no
  \<open>sort_by\<close> parameter, or has it with an empty first value, the new URL consists of
  the form's non-empty fields alone and has no \<open>sort_by\<close> parameter.
\<close>

theorem filter_submit_keeps_sort:
  assumes "\<forall>e \<in> set entries. fst e \<noteq> ''sort_by''"
  shows "(\<forall>sb. params_get ''sort_by'' (loc_searchParams loc) = Some sb \<and> sb \<noteq> [] \<longrightarrow>
            FiltersDrawer_params entries loc = form_params entries @ [(''sort_by'', sb)]
            \<and> FiltersDrawer_handleSubmit entries loc
                = pathname loc @ ''?''
                  @ (if form_params entries = [] then []
                     else params_toString (form_params entries) @ ''&'')
                  @ ''sort_by='' @ urlencoded sb
            \<and> SidebarFilters_submitForm entries loc = FiltersDrawer_handleSubmit entries loc)
       \<and> (params_get ''sort_by'' (loc_searchParams loc) = None
           \<or> params_get ''sort_by'' (loc_searchParams loc) = Some [] \<longrightarrow>
            FiltersDrawer_params entries loc = form_params entries
            \<and> params_get ''sort_by'' (FiltersDrawer_params entries loc) = None
            \<and> FiltersDrawer_handleSubmit entries loc
                = pathname loc @ ''?'' @ params_toString (form_params entries)
            \<and> SidebarFilters_submitForm entries loc = FiltersDrawer_handleSubmit entries loc)
       \<and> form_params entries = filter (\<lambda>e. snd e \<noteq> []) entries"
proof -
  have fresh: "\<forall>e \<in> set (form_params entries). fst e \<noteq> ''sort_by''"
    using assms by (simp add: form_params_filter)
  have none: "params_get ''sort_by'' (form_params entries) = None"
    using fresh by (fastforce simp add: params_get_def find_None_iff)
  have a: "FiltersDrawer_params entries loc = form_params entries @ [(''sort_by'', sb)]
            \<and> FiltersDrawer_handleSubmit entries loc
                = pathname loc @ ''?''
                  @ (if form_params entries = [] then []
                     else params_toString (form_params entries) @ ''&'')
                  @ ''sort_by='' @ urlencoded sb"
    if "params_get ''sort_by'' (loc_searchParams loc) = Some sb" and "sb \<noteq> []" for sb
  proof -
    from that have p: "FiltersDrawer_params entries loc = form_params entries @ [(''sort_by'', sb)]"
      by (simp add: FiltersDrawer_params_def params_set_fresh [OF fresh])
    then show ?thesis
      by (simp add: FiltersDrawer_handleSubmit_def params_toString_snoc urlencoded_sort_by)
  qed
  have b: "FiltersDrawer_params entries loc = form_params entries
            \<and> params_get ''sort_by'' (FiltersDrawer_params entries loc) = None
            \<and> FiltersDrawer_handleSubmit entries loc
                = pathname loc @ ''?'' @ params_toString (form_params entries)"
    if "params_get ''sort_by'' (loc_searchParams loc) = None
           \<or> params_get ''sort_by'' (loc_searchParams loc) = Some []"
  proof -
    from that have p: "FiltersDrawer_params entries loc = form_params entries"
      by (auto simp add: FiltersDrawer_params_def)
    with none show ?thesis
      by (simp add: FiltersDrawer_handleSubmit_def)
  qed
  from a b SidebarFilters_same(2) form_params_filter show ?thesis by blast
qed

theorem filter_submit_keeps_sort_witness:
  "params_get ''sort_by'' (loc_searchParams (ex_loc [(''sort_by'', ''price-ascending'')]))
     = Some ''price-ascending''
   \<and> FiltersDrawer_handleSubmit ex_entries (ex_loc [(''sort_by'', ''price-ascending'')])
     = ''/collections/all?filter.v.availability=1&filter.p.tag=new+in&sort_by=price-ascending''
   \<and> SidebarFilters_submitForm ex_entries (ex_loc [(''sort_by'', ''price-ascending'')])
     = ''/collections/all?filter.v.availability=1&filter.p.tag=new+in&sort_by=price-ascending''
   \<and> params_get ''sort_by'' (loc_searchParams (ex_loc [])) = None
   \<and> FiltersDrawer_handleSubmit ex_entries (ex_loc [])
     = ''/collections/all?filter.v.availability=1&filter.p.tag=new+in''
   \<and> params_get ''sort_by'' (FiltersDrawer_params ex_entries (ex_loc [])) = None"
proof -
  have h: "\<forall>e \<in> set ex_entries. fst e \<noteq> ''sort_by''"
    by (simp add: ex_entries_def)
  have g1: "params_get ''sort_by'' (loc_searchParams (ex_loc [(''sort_by'', ''price-ascending'')]))
     = Some ''price-ascending''"
    by code_simp
  have g2: "params_get ''sort_by'' (loc_searchParams (ex_loc [])) = None"
    by code_simp
  have e1: "FiltersDrawer_handleSubmit ex_entries (ex_loc [(''sort_by'', ''price-ascending'')])
     = ''/collections/all?filter.v.availability=1&filter.p.tag=new+in&sort_by=price-ascending''"
    by code_simp
  have e2: "FiltersDrawer_handleSubmit ex_entries (ex_loc [])
     = ''/collections/all?filter.v.availability=1&filter.p.tag=new+in''"
    by code_simp
  note t1 = filter_submit_keeps_sort [OF h, of "ex_loc [(''sort_by'', ''price-ascending'')]"]
  note t2 = filter_submit_keeps_sort [OF h, of "ex_loc []"]
  from t1 g1 have s1: "SidebarFilters_submitForm ex_entries (ex_loc [(''sort_by'', ''price-ascending'')])
     = FiltersDrawer_handleSubmit ex_entries (ex_loc [(''sort_by'', ''price-ascending'')])"
    by blast
  from t2 g2 have n2: "params_get ''sort_by'' (FiltersDrawer_params ex_entries (ex_loc [])) = None"
    by blast
  from g1 e1 s1 g2 e2 n2 show ?thesis by simp
qed

text \<open>
  The claim C9 as written keeps the parameter whenever it is present. On
  \<open>/collections/all?sort_by=\<close> it is present, with the empty value, and the new URL
  has no \<open>sort_by\<close> parameter.
\<close>

theorem empty_sort_dropped_counterexample:
  "params_get ''sort_by'' (loc_searchParams (ex_loc [(''sort_by'', [])])) = Some []
   \<and> FiltersDrawer_handleSubmit ex_entries (ex_loc [(''sort_by'', [])])
     = ''/collections/all?filter.v.availability=1&filter.p.tag=new+in''
   \<and> SidebarFilters_submitForm ex_entries (ex_loc [(''sort_by'', [])])
     = ''/collections/all?filter.v.availability=1&filter.p.tag=new+in''
   \<and> params_get ''sort_by'' (FiltersDrawer_params ex_entries (ex_loc [(''sort_by'', [])])) = None"
  by code_simp

section \<open>Properties of the predictive search\<close>

lemma search_inv_empty: "inflight s = [] \<Longrightarrow> search_inv s"
  by (simp add: search_inv_def)

lemma search_inv_cases:
  assumes "search_inv s"
  shows "inflight s = []
       \<or> (\<exists>r. inflight s = [r] \<and> abortController s = Some (rid r) \<and> issued s \<noteq> []
              \<and> last (issued s) = (rid r, sr_query r) \<and> debounceTimer s = None)"
proof (cases "inflight s")
  case Nil
  then show ?thesis by simp
next
  case (Cons r rs)
  with assms have "rs = []" by (simp add: search_inv_def)
  with Cons assms show ?thesis by (auto simp add: search_inv_def)
qed

lemma reject_request_fields [simp]:
  "inflight (reject_request tr err r s) = filter (\<lambda>x. rid x \<noteq> rid r) (inflight s)"
  "abortController (reject_request tr err r s) = abortController s"
  "issued (reject_request tr err r s) = issued s"
  "debounceTimer (reject_request tr err r s) = debounceTimer s"
  "is_loading (reject_request tr err r s) = False"
  by (simp_all add: reject_request_def fetchResults_finally_def fetchResults_catch_def
        showNoResults_def finish_request_def)

lemma reject_request_abort [simp]:
  "results (reject_request tr AbortError r s) = results s"
  "search_console (reject_request tr AbortError r s) = search_console s"
  by (simp_all add: reject_request_def fetchResults_finally_def fetchResults_catch_def
        finish_request_def error_name_def)

lemma reject_request_failure:
  assumes "err \<noteq> AbortError"
  shows "results (reject_request tr err r s) = no_results_html tr (sr_query r)"
    and "search_console (reject_request tr err r s) = search_console s @ [''Search error:'']"
  using assms
  by (cases err; simp add: reject_request_def fetchResults_finally_def fetchResults_catch_def
        finish_request_def error_name_def showNoResults_def)+

lemma onInput_inflight:
  assumes "search_inv s"
  shows "inflight (onInput tr s) = []"
  using search_inv_cases [OF assms]
  by (auto simp add: onInput_def Let_def clearResults_def split: option.splits)


lemma deliver_inv:
  assumes "search_inv s"
  shows "search_inv (deliver tr c dl s)"
proof -
  from search_inv_cases [OF assms] show ?thesis
  proof
    assume "inflight s = []"
    then show ?thesis by (simp add: deliver_def search_inv_empty)
  next
    assume "\<exists>r. inflight s = [r] \<and> abortController s = Some (rid r) \<and> issued s \<noteq> []
              \<and> last (issued s) = (rid r, sr_query r) \<and> debounceTimer s = None"
    then obtain r where r: "inflight s = [r]" "abortController s = Some (rid r)" "issued s \<noteq> []"
      "last (issued s) = (rid r, sr_query r)" "debounceTimer s = None"
      by blast
    show ?thesis
    proof (cases "rid r = c")
      case False
      with r have "deliver tr c dl s = s" by (simp add: deliver_def)
      with assms show ?thesis by simp
    next
      case True
      with r show ?thesis
        by (cases "sr_phase r"; cases dl)
           (auto simp add: deliver_def search_inv_def fetchResults_finally_def finish_request_def
              showNoResults_def split: option.splits)
    qed
  qed
qed

lemma search_step_inv:
  assumes "search_inv s"
  shows "search_inv (search_step tr s ev)"
proof (cases ev)
  case (Input v)
  have "search_inv (s\<lparr>input_value := v\<rparr>)"
    using assms by (simp add: search_inv_def)
  then have "inflight (onInput tr (s\<lparr>input_value := v\<rparr>)) = []"
    by (rule onInput_inflight)
  with Input show ?thesis by (simp add: search_step_def search_inv_empty)
next
  case TimerFires
  show ?thesis
  proof (cases "debounceTimer s")
    case None
    with TimerFires assms show ?thesis by (simp add: search_step_def)
  next
    case (Some q)
    with assms have "inflight s = []" by (simp add: search_inv_def)
    with TimerFires Some show ?thesis
      by (simp add: search_step_def fetchResults_start_def Let_def search_inv_def)
  qed
next
  case (Deliver c dl)
  with deliver_inv [OF assms] show ?thesis by (simp add: search_step_def)
next
  case Close
  with assms show ?thesis by (simp add: search_step_def clearResults_def search_inv_def)
qed

lemma search_run_inv:
  assumes "search_inv s"
  shows "search_inv (search_run tr evs s)"
  using assms unfolding search_run_def
  by (induction evs arbitrary: s) (simp_all add: search_step_inv)

lemma search_init_inv: "search_inv (search_init markup)"
  by (simp add: search_init_def search_inv_def)

lemma deliver_writes:
  assumes "results (deliver tr c dl s) \<noteq> results s"
  shows "\<exists>r \<in> set (inflight s). rid r = c
           \<and> (results (deliver tr c dl s) = no_results_html tr (sr_query r)
              \<or> dl = BodyArrives (Some (results (deliver tr c dl s))))"
proof (cases "find (\<lambda>r. rid r = c) (inflight s)")
  case None
  with assms show ?thesis by (simp add: deliver_def)
next
  case (Some r)
  then obtain i where "i < length (inflight s)" "rid (inflight s ! i) = c" "r = inflight s ! i"
    unfolding find_Some_iff by blast
  then have m: "r \<in> set (inflight s)" "rid r = c" by simp_all
  have "results (deliver tr c dl s) = results s
        \<or> results (deliver tr c dl s) = no_results_html tr (sr_query r)
        \<or> dl = BodyArrives (Some (results (deliver tr c dl s)))"
    using Some
    by (cases "sr_phase r"; cases dl)
       (auto simp add: deliver_def fetchResults_finally_def finish_request_def
          showNoResults_def reject_request_failure split: option.splits)
  with assms m show ?thesis by blast
qed

text \<open>
  C5. In every state the modal reaches from its initial one by inputs, timer firings,
  network deliveries and closings: at most one call of \<open>fetchResults\<close> is suspended, and
  it is the one of the current controller and of the request issued last; while a
  debounce timer is pending, and after every input event, none is suspended, so whatever
  was in flight has been aborted before the next request goes out. Hence a delivery that
  changes the results panel belongs to the request issued last, and the panel then shows
  either that response's fragment or the no-results text for that request's query; a
  delivery for an earlier request changes nothing.
\<close>

theorem search_renders_latest_only:
  assumes "s = search_run tr evs (search_init markup)"
  shows "length (inflight s) \<le> 1
     \<and> (\<forall>r \<in> set (inflight s).
          abortController s = Some (rid r) \<and> issued s \<noteq> [] \<and> last (issued s) = (rid r, sr_query r))
     \<and> (debounceTimer s \<noteq> None \<longrightarrow> inflight s = [])
     \<and> (\<forall>v. inflight (search_step tr s (Input v)) = [])
     \<and> (\<forall>c dl. results (search_step tr s (Deliver c dl)) \<noteq> results s \<longrightarrow>
           issued s \<noteq> [] \<and> fst (last (issued s)) = c \<and> abortController s = Some c
           \<and> (results (search_step tr s (Deliver c dl)) = no_results_html tr (snd (last (issued s)))
              \<or> dl = BodyArrives (Some (results (search_step tr s (Deliver c dl))))))"
proof -
  have inv: "search_inv s"
    unfolding assms by (rule search_run_inv [OF search_init_inv])
  have a: "inflight (search_step tr s (Input v)) = []" for v
  proof -
    have "search_inv (s\<lparr>input_value := v\<rparr>)"
      using inv by (simp add: search_inv_def)
    then show ?thesis by (simp add: search_step_def onInput_inflight)
  qed
  have b: "issued s \<noteq> [] \<and> fst (last (issued s)) = c \<and> abortController s = Some c
           \<and> (results (search_step tr s (Deliver c dl)) = no_results_html tr (snd (last (issued s)))
              \<or> dl = BodyArrives (Some (results (search_step tr s (Deliver c dl)))))"
    if "results (search_step tr s (Deliver c dl)) \<noteq> results s" for c dl
  proof -
    from that have "results (deliver tr c dl s) \<noteq> results s"
      by (simp add: search_step_def)
    from deliver_writes [OF this] obtain r where r: "r \<in> set (inflight s)" "rid r = c"
      "results (deliver tr c dl s) = no_results_html tr (sr_query r)
       \<or> dl = BodyArrives (Some (results (deliver tr c dl s)))"
      by blast
    from inv r(1) have "abortController s = Some (rid r)" "issued s \<noteq> []"
      "last (issued s) = (rid r, sr_query r)"
      by (simp_all add: search_inv_def)
    with r show ?thesis by (simp add: search_step_def)
  qed
  from inv a b show ?thesis unfolding search_inv_def by blast
qed

theorem search_renders_latest_only_witness:
  "issued (search_run None ex_typing (search_init ''init'')) = [(0, ''shi''), (1, ''shir'')]
   \<and> inflight (search_run None ex_typing (search_init ''init''))
       = [\<lparr>rid = 1, sr_query = ''shir'', sr_phase = AwaitingResponse\<rparr>]
   \<and> results (search_step None (search_run None ex_typing (search_init ''init''))
        (Deliver 0 (BodyArrives (Some ''stale''))))
       = results (search_run None ex_typing (search_init ''init''))
   \<and> results (search_run None
        (ex_typing @ [Deliver 1 (ResponseArrives True), Deliver 1 (BodyArrives (Some ''fresh''))])
        (search_init ''init'')) = ''fresh''"
proof -
  let ?s = "search_run None ex_typing (search_init ''init'')"
  have i: "issued ?s = [(0, ''shi''), (1, ''shir'')]"
    by code_simp
  have f: "inflight ?s = [\<lparr>rid = 1, sr_query = ''shir'', sr_phase = AwaitingResponse\<rparr>]"
    by code_simp
  have r: "results (search_run None
        (ex_typing @ [Deliver 1 (ResponseArrives True), Deliver 1 (BodyArrives (Some ''fresh''))])
        (search_init ''init'')) = ''fresh''"
    by code_simp
  from search_renders_latest_only [OF refl, of None ex_typing "''init''"]
  have "results (search_step None ?s (Deliver 0 (BodyArrives (Some ''stale'')))) \<noteq> results ?s
        \<longrightarrow> fst (last (issued ?s)) = 0"
    by blast
  with i have "results (search_step None ?s (Deliver 0 (BodyArrives (Some ''stale'')))) = results ?s"
    by auto
  with i f r show ?thesis by simp
qed




end
